theory Spec2Isabelle
  imports
    Main
    "HOL-Library.AList"
    "HOL-Library.Char_ord"
    "HOL-Library.List_Lexorder"
    "HOL-Library.Multiset"
    "HOL-Library.Sublist"
    "HOL-Library.Word"
begin

section \<open>The scaffold command: data model\<close>

text \<open>
  The program is one Go file of package \<open>main\<close> (the cobra command, its \<open>RunE\<close>
  closure, \<open>getYamlFrom\<close>, \<open>Unzip\<close> and private copies of the prompt helpers) and
  the package \<open>pkg/ui\<close> (the prompt helpers again, this time sorting the options).
  Strings are Go strings read as byte lists; \<open>sort.Strings\<close> and the key order of
  \<open>url.Values.Encode\<close> are the bytewise lexicographic order, which is the order of
  \<^typ>\<open>string\<close> under \<open>Char_ord\<close> and \<open>List_Lexorder\<close>.
\<close>

text \<open>
  A Go \<open>error\<close> value. \<open>terminal.InterruptErr\<close> is compared by identity in
  \<open>HandleError\<close>, so it is a constructor of its own; every other error is known by
  its text (\<open>err.Error()\<close>).
\<close>

datatype error = InterruptErr | Err string

fun Error :: "error \<Rightarrow> string" where
  "Error InterruptErr = ''interrupt''"
| "Error (Err s) = s"

text \<open>
  Modelled from the spec: \<open>scaffold.Project\<close>, the descriptor the flags and the
  prompts fill. The type is declared in \<open>pkg/scaffold\<close>, which is not among the
  sources; the specification lists its fields (section 3, ProjectDescriptor), and
  the names are the ones \<open>main\<close> reads and writes them by.
\<close>

record Project =
  Template :: string
  UrlService :: string
  Modules :: "string list"
  GroupId :: string
  ArtifactId :: string
  Version :: string
  PackageName :: string
  SpringBootVersion :: string
  SnowdropBomVersion :: string
  OutDir :: string

text \<open>
  Modelled from the spec: \<open>scaffold.Bom\<close>, also declared in \<open>pkg/scaffold\<close>: a
  primary reference and a list of supported alternates (section 3, RemoteConfig),
  which \<open>RunE\<close> reads as \<open>bom.Snowdrop\<close> and \<open>bom.Supported\<close>. A Go map lookup of
  a missing key gives the zero value.
\<close>

record Bom =
  Snowdrop :: string
  Supported :: "string list"

definition zeroBom :: Bom where
  "zeroBom = \<lparr>Snowdrop = [], Supported = []\<rparr>"

definition lookupBom :: "(string \<rightharpoonup> Bom) \<Rightarrow> string \<Rightarrow> Bom" where
  "lookupBom versions k = (case versions k of None \<Rightarrow> zeroBom | Some b \<Rightarrow> b)"

section \<open>Strings and the standard library functions the command calls\<close>

text \<open>\<open>strings.Join\<close>.\<close>

fun Join :: "string list \<Rightarrow> string \<Rightarrow> string" where
  "Join [] sep = []"
| "Join [x] sep = x"
| "Join (x # y # ys) sep = x @ sep @ Join (y # ys) sep"

text \<open>\<open>strings.Contains\<close>: some suffix of \<open>s\<close> starts with \<open>sub\<close>.\<close>

fun Contains :: "string \<Rightarrow> string \<Rightarrow> bool" where
  "Contains [] sub = (sub = [])"
| "Contains (c # s) sub = (prefix sub (c # s) \<or> Contains s sub)"

text \<open>
  \<open>strings.LastIndex\<close> for a one-byte separator: the index of the last occurrence,
  \<open>None\<close> for Go's \<open>-1\<close>.
\<close>

fun LastIndex :: "string \<Rightarrow> char \<Rightarrow> nat option" where
  "LastIndex [] c = None"
| "LastIndex (x # xs) c =
     (case LastIndex xs c of
        Some i \<Rightarrow> Some (Suc i)
      | None \<Rightarrow> if x = c then Some 0 else None)"

subsection \<open>\<open>net/url\<close>: query escaping and \<open>url.Values\<close>\<close>

text \<open>
  \<open>url.QueryEscape\<close>: letters, digits and \<open>- _ . ~\<close> stay, a space becomes \<open>+\<close>,
  every other byte becomes \<open>%XX\<close> in upper-case hexadecimal.
\<close>

definition unreserved :: "char \<Rightarrow> bool" where
  "unreserved c =
     (let n = (of_char c :: nat) in
        (48 \<le> n \<and> n \<le> 57) \<or> (65 \<le> n \<and> n \<le> 90) \<or> (97 \<le> n \<and> n \<le> 122)
        \<or> c = CHR ''-'' \<or> c = CHR ''_'' \<or> c = CHR ''.'' \<or> c = CHR ''~'')"

definition upperhex :: string where
  "upperhex = ''0123456789ABCDEF''"

definition escape_byte :: "char \<Rightarrow> string" where
  "escape_byte c =
     (if c = CHR '' '' then ''+''
      else if unreserved c then [c]
      else [CHR ''%'', upperhex ! ((of_char c :: nat) div 16), upperhex ! ((of_char c :: nat) mod 16)])"

definition QueryEscape :: "string \<Rightarrow> string" where
  "QueryEscape s = concat (map escape_byte s)"

text \<open>
  \<open>url.Values\<close> is \<open>map[string][]string\<close>. The model is an association list with one
  entry per key: \<open>Add\<close> appends to the key's values, or makes the key.
\<close>

type_synonym Values = "(string \<times> string list) list"

fun Add :: "Values \<Rightarrow> string \<Rightarrow> string \<Rightarrow> Values" where
  "Add [] k v = [(k, [v])]"
| "Add ((k', vs) # m) k v =
     (if k' = k then (k', vs @ [v]) # m else (k', vs) # Add m k v)"

definition values_of :: "Values \<Rightarrow> string \<Rightarrow> string list" where
  "values_of m k = (case map_of m k of None \<Rightarrow> [] | Some vs \<Rightarrow> vs)"

text \<open>
  \<open>Values.Encode\<close>: the keys sorted, and under each key its values in the order they
  were added, each as \<open>key=value\<close> (both escaped), joined by \<open>&\<close>. \<open>pairs\<close> is the
  sequence of parameters before it is rendered.
\<close>

definition pairs :: "Values \<Rightarrow> (string \<times> string) list" where
  "pairs m = concat (map (\<lambda>k. map (Pair k) (values_of m k)) (sort (map fst m)))"

definition render :: "string \<times> string \<Rightarrow> string" where
  "render kv = QueryEscape (fst kv) @ ''='' @ QueryEscape (snd kv)"

definition Encode :: "Values \<Rightarrow> string" where
  "Encode m = Join (map render (pairs m)) ''&''"

text \<open>
  Reading a query string back into its parameters, as the receiving service does
  before unescaping: split at \<open>&\<close>, each part at its first \<open>=\<close>.
\<close>

fun split_on :: "char \<Rightarrow> string \<Rightarrow> string list" where
  "split_on c [] = [[]]"
| "split_on c (x # xs) =
     (if x = c then [] # split_on c xs
      else (case split_on c xs of [] \<Rightarrow> [[x]] | y # ys \<Rightarrow> (x # y) # ys))"

definition query_params :: "string \<Rightarrow> (string \<times> string) list" where
  "query_params q =
     (if q = [] then []
      else map (\<lambda>s. (takeWhile (\<lambda>c. c \<noteq> CHR ''='') s, drop 1 (dropWhile (\<lambda>c. c \<noteq> CHR ''='') s)))
             (split_on CHR ''&'' q))"

section \<open>The archive request's query (\<open>RunE\<close>, lines 128 to 146)\<close>

text \<open>The loop \<open>for _, v := range p.Modules\<close>: an empty entry adds nothing.\<close>

fun add_modules :: "Values \<Rightarrow> string list \<Rightarrow> Values" where
  "add_modules form [] = form"
| "add_modules form (v # vs) =
     add_modules (if v \<noteq> [] then Add form ''module'' v else form) vs"

definition build_form :: "Project \<Rightarrow> Values" where
  "build_form p =
     (let form = [];
          form = Add form ''template'' (Template p);
          form = Add form ''groupid'' (GroupId p);
          form = Add form ''artifactid'' (ArtifactId p);
          form = Add form ''version'' (Version p);
          form = Add form ''packagename'' (PackageName p);
          form = Add form ''snowdropbom'' (SnowdropBomVersion p);
          form = Add form ''springbootversion'' (SpringBootVersion p);
          form = Add form ''outdir'' (OutDir p)
      in add_modules form (Modules p))"

definition request_parameters :: "Project \<Rightarrow> string" where
  "request_parameters p =
     (let parameters = Encode (build_form p)
      in if parameters \<noteq> [] then ''?'' @ parameters else parameters)"

definition request_url :: "Project \<Rightarrow> string" where
  "request_url p = Join [UrlService p, ''app''] ''/'' @ request_parameters p"

section \<open>The terminal, the log and the process\<close>

text \<open>
  What the user does at one prompt: answers it (a yes or no, one option, several
  options, a line of text), or the prompt fails with an error
  (\<open>terminal.InterruptErr\<close> on ctrl-c, any other error otherwise).
\<close>

datatype answer = YesNo bool | Choice string | Choices "string list" | Line string

datatype reply = Answer answer | Fail error

text \<open>
  The four prompts of \<open>survey\<close> the command builds: \<open>survey.Confirm\<close>,
  \<open>survey.Select\<close> (message, options, default; the default is an \<open>interface{}\<close>,
  \<open>nil\<close> when unset), \<open>survey.MultiSelect\<close> and \<open>survey.Input\<close> (message and
  default, the empty string when unset).
\<close>

datatype prompt =
    Confirm string
  | SelectPrompt string "string list" "string option"
  | MultiSelectPrompt string "string list"
  | Input string string

text \<open>The value \<open>survey.AskOne\<close> writes through its response pointer.\<close>

datatype val = BoolVal bool | StringVal string | StringsVal "string list"

datatype level = InfoLevel | ErrorLevel | FatalLevel

text \<open>A node of the file system: a regular file (mode, bytes) or a directory (mode).\<close>

type_synonym FileMode = "32 word"

datatype node = File FileMode string | Dir FileMode

text \<open>
  The state a run reads and changes: the replies still to come from the terminal, the
  prompts rendered so far, what was printed on standard output, the entries logged
  through logrus, the URLs of the requests sent, and the files.
\<close>

record world =
  replies :: "reply list"
  shown :: "prompt list"
  stdout :: "string list"
  logged :: "(level \<times> string) list"
  sent :: "string list"
  files :: "(string \<times> node) list"

text \<open>
  How a call ends: it returns a value, the process exits (\<open>os.Exit\<close>, also inside
  \<open>log.Fatal\<close>), or the Go runtime panics (a nil pointer dereference; the process then
  ends with status 2).
\<close>

datatype 'a result = Return 'a world | Exit nat world | Panic world

definition bind :: "'a result \<Rightarrow> ('a \<Rightarrow> world \<Rightarrow> 'b result) \<Rightarrow> 'b result" where
  "bind r k = (case r of Return a w \<Rightarrow> k a w | Exit c w \<Rightarrow> Exit c w | Panic w \<Rightarrow> Panic w)"

definition print :: "string \<Rightarrow> world \<Rightarrow> world" where
  "print s w = w\<lparr>stdout := stdout w @ [s]\<rparr>"

definition log_entry :: "level \<Rightarrow> string \<Rightarrow> world \<Rightarrow> world" where
  "log_entry l s w = w\<lparr>logged := logged w @ [(l, s)]\<rparr>"

text \<open>\<open>log.Fatal\<close>: the entry is logged, then the process exits with status 1.\<close>

definition log_Fatal :: "string \<Rightarrow> world \<Rightarrow> 'a result" where
  "log_Fatal s w = Exit 1 (log_entry FatalLevel s w)"

section \<open>\<open>survey.AskOne\<close> with the \<open>survey.Required\<close> validator\<close>

text \<open>
  One rendering of a prompt against one reply. A select prompt with no options fails
  before it reads the terminal. An \<open>Input\<close> with a default gives the default for an
  empty line. A reply that is no answer to this kind of prompt is a failure of the
  prompt.
\<close>

definition no_options :: error where
  "no_options = Err ''please provide options to select from''"

definition unexpected_input :: error where
  "unexpected_input = Err ''unexpected input''"

definition end_of_input :: error where
  "end_of_input = Err ''EOF''"

fun needs_options :: "prompt \<Rightarrow> bool" where
  "needs_options (SelectPrompt m opts d) = (opts = [])"
| "needs_options (MultiSelectPrompt m opts) = (opts = [])"
| "needs_options _ = False"

fun read_answer :: "prompt \<Rightarrow> answer \<Rightarrow> error + val" where
  "read_answer (Confirm m) (YesNo b) = Inr (BoolVal b)"
| "read_answer (SelectPrompt m opts d) (Choice s) =
     (if s \<in> set opts then Inr (StringVal s) else Inl unexpected_input)"
| "read_answer (MultiSelectPrompt m opts) (Choices ss) =
     (if set ss \<subseteq> set opts then Inr (StringsVal ss) else Inl unexpected_input)"
| "read_answer (Input m d) (Line s) = Inr (StringVal (if s = [] \<and> d \<noteq> [] then d else s))"
| "read_answer _ _ = Inl unexpected_input"

text \<open>
  \<open>survey.Required\<close>: the zero value of the answer's type is refused, except for a
  \<open>bool\<close>.
\<close>

fun Required :: "val \<Rightarrow> bool" where
  "Required (BoolVal b) = True"
| "Required (StringVal s) = (s \<noteq> [])"
| "Required (StringsVal ss) = (ss \<noteq> [])"

text \<open>
  \<open>survey.AskOne(prompt, &response, survey.Required)\<close>: the prompt is rendered and
  read; an answer the validator refuses makes the prompt ask again; the first error
  ends the call. The terminal at its end (no reply left) is an error of the prompt.
  The result is the error, or the value written to \<open>response\<close>.
\<close>

fun ask_loop :: "prompt \<Rightarrow> reply list \<Rightarrow> nat \<Rightarrow> (error + val) \<times> reply list \<times> nat" where
  "ask_loop p [] n = (Inl end_of_input, [], Suc n)"
| "ask_loop p (Fail e # rs) n = (Inl e, rs, Suc n)"
| "ask_loop p (Answer a # rs) n =
     (case read_answer p a of
        Inl e \<Rightarrow> (Inl e, rs, Suc n)
      | Inr v \<Rightarrow> if Required v then (Inr v, rs, Suc n) else ask_loop p rs (Suc n))"

definition AskOne :: "prompt \<Rightarrow> world \<Rightarrow> (error + val) \<times> world" where
  "AskOne p w =
     (if needs_options p then (Inl no_options, w)
      else (case ask_loop p (replies w) 0 of
              (r, rs, n) \<Rightarrow> (r, w\<lparr>replies := rs, shown := shown w @ replicate n p\<rparr>)))"

text \<open>
  The callers declare \<open>response\<close> at its zero value, call \<open>AskOne\<close> and return
  \<open>response\<close>: the answer when one was written, the zero value otherwise.
\<close>

fun err_of :: "error + val \<Rightarrow> error option" where
  "err_of (Inl e) = Some e"
| "err_of (Inr v) = None"

fun bool_response :: "error + val \<Rightarrow> bool" where
  "bool_response (Inr (BoolVal b)) = b"
| "bool_response _ = False"

fun string_response :: "error + val \<Rightarrow> string" where
  "string_response (Inr (StringVal s)) = s"
| "string_response _ = []"

fun strings_response :: "error + val \<Rightarrow> string list" where
  "strings_response (Inr (StringsVal ss)) = ss"
| "strings_response _ = []"

section \<open>The prompt helpers of package \<open>main\<close>\<close>

definition HandleError :: "error option \<Rightarrow> world \<Rightarrow> unit result" where
  "HandleError err w =
     (case err of
        None \<Rightarrow> Return () w
      | Some e \<Rightarrow>
          if e = InterruptErr then Exit 1 w
          else Return () (print (''Encountered an error processing prompt: '' @ Error e) w))"

definition Proceed :: "string \<Rightarrow> world \<Rightarrow> bool result" where
  "Proceed message w =
     (let prompt = Confirm message;
          (r, w) = AskOne prompt w
      in bind (HandleError (err_of r) w) (\<lambda>_ w. Return (bool_response r) w))"

definition askOne :: "prompt \<Rightarrow> world \<Rightarrow> string result" where
  "askOne prompt w =
     (let (r, w) = AskOne prompt w
      in bind (HandleError (err_of r) w) (\<lambda>_ w. Return (string_response r) w))"

text \<open>The variadic \<open>defaultValue ...string\<close> is the list of the arguments given.\<close>

definition Select :: "string \<Rightarrow> string list \<Rightarrow> string list \<Rightarrow> world \<Rightarrow> string result" where
  "Select message options defaultValue w =
     askOne (SelectPrompt message options
               (if length defaultValue = 1 then Some (defaultValue ! 0) else None)) w"

definition MultiSelect :: "string \<Rightarrow> string list \<Rightarrow> world \<Rightarrow> string list result" where
  "MultiSelect message options w =
     (let prompt = MultiSelectPrompt message options;
          (r, w) = AskOne prompt w
      in bind (HandleError (err_of r) w) (\<lambda>_ w. Return (strings_response r) w))"

definition Ask :: "string \<Rightarrow> string list \<Rightarrow> world \<Rightarrow> string result" where
  "Ask message defaultValue w =
     askOne (Input message (if length defaultValue = 1 then defaultValue ! 0 else [])) w"

section \<open>The prompt helpers of package \<open>pkg/ui\<close>\<close>

text \<open>
  The same five functions; \<open>Select\<close> and \<open>MultiSelect\<close> call \<open>sort.Strings\<close> on the
  options first.
\<close>

definition ui_HandleError :: "error option \<Rightarrow> world \<Rightarrow> unit result" where
  "ui_HandleError err w =
     (case err of
        None \<Rightarrow> Return () w
      | Some e \<Rightarrow>
          if e = InterruptErr then Exit 1 w
          else Return () (print (''Encountered an error processing prompt: '' @ Error e) w))"

definition ui_Proceed :: "string \<Rightarrow> world \<Rightarrow> bool result" where
  "ui_Proceed message w =
     (let prompt = Confirm message;
          (r, w) = AskOne prompt w
      in bind (ui_HandleError (err_of r) w) (\<lambda>_ w. Return (bool_response r) w))"

definition ui_askOne :: "prompt \<Rightarrow> world \<Rightarrow> string result" where
  "ui_askOne prompt w =
     (let (r, w) = AskOne prompt w
      in bind (ui_HandleError (err_of r) w) (\<lambda>_ w. Return (string_response r) w))"

definition ui_Select :: "string \<Rightarrow> string list \<Rightarrow> string list \<Rightarrow> world \<Rightarrow> string result" where
  "ui_Select message options defaultValue w =
     (let options = sort options
      in ui_askOne (SelectPrompt message options
                      (if length defaultValue = 1 then Some (defaultValue ! 0) else None)) w)"

definition ui_MultiSelect :: "string \<Rightarrow> string list \<Rightarrow> world \<Rightarrow> string list result" where
  "ui_MultiSelect message options w =
     (let options = sort options;
          prompt = MultiSelectPrompt message options;
          (r, w) = AskOne prompt w
      in bind (ui_HandleError (err_of r) w) (\<lambda>_ w. Return (strings_response r) w))"

definition ui_Ask :: "string \<Rightarrow> string list \<Rightarrow> world \<Rightarrow> string result" where
  "ui_Ask message defaultValue w =
     ui_askOne (Input message (if length defaultValue = 1 then defaultValue ! 0 else [])) w"

section \<open>The services outside the program\<close>

text \<open>
  \<open>zip.File\<close>: the entry's recorded name and mode, and what \<open>f.Open()\<close> gives: an
  error, or a reader that delivers bytes and then ends, cleanly or with an error.
\<close>

record zip_file =
  Name :: string
  Mode :: FileMode
  Open :: "error + (string \<times> error option)"

text \<open>
  An HTTP response as the program uses it: \<open>ioutil.ReadAll(res.Body)\<close> gives the
  bytes read and an error or \<open>nil\<close>.
\<close>

datatype response = Response string "error option"

text \<open>
  What a run takes from outside, none of it changed by the run. \<open>'c\<close> is
  \<open>scaffold.Config\<close> and \<open>'m\<close> is \<open>[]scaffold.Module\<close>; the functions of
  \<open>pkg/scaffold\<close> and of the libraries are parameters:
  \<^item> \<open>Getwd\<close>: the directory \<open>os.Getwd()\<close> returns (the empty string when it fails: the
    program drops the error);
  \<^item> \<open>NewRequest\<close>: the error of \<open>http.NewRequest\<close> for a URL; the request is \<open>nil\<close>
    exactly when there is one;
  \<^item> \<open>Do\<close>: the pair \<open>(res, err)\<close> of \<open>client.Do\<close>;
  \<^item> \<open>Unmarshal_config\<close>, \<open>Unmarshal_modules\<close>: \<open>yaml.Unmarshal\<close> at the two result
    types;
  \<^item> \<open>OpenReader\<close>: the entries \<open>zip.OpenReader\<close> finds in the bytes of a file;
  \<^item> \<open>Umask\<close>: the file mode creation mask of the process, which the program neither
    reads nor sets: the kernel clears its permission bits in the mode of every file and
    directory the process creates.
\<close>

record ('c, 'm) env =
  Getwd :: string
  NewRequest :: "string \<Rightarrow> error option"
  Do :: "string \<Rightarrow> response option \<times> error option"
  Unmarshal_config :: "string \<Rightarrow> error + 'c"
  Unmarshal_modules :: "string \<Rightarrow> error + 'm"
  GetBOMMap :: "'c \<Rightarrow> (string \<rightharpoonup> Bom) \<times> string"
  GetSpringBootVersions :: "(string \<rightharpoonup> Bom) \<Rightarrow> string list"
  GetSupportedVersionFor :: "'c \<Rightarrow> string \<Rightarrow> string"
  GetTemplateNames :: "'c \<Rightarrow> string list"
  GetModuleNamesFor :: "'m \<Rightarrow> string list"
  OpenReader :: "string \<Rightarrow> error + zip_file list"
  Umask :: FileMode

section \<open>\<open>getYamlFrom\<close> and its two callers\<close>

text \<open>
  The three \<open>if err != nil\<close> of the request only log. After a failed
  \<open>http.NewRequest\<close> the request is \<open>nil\<close> and \<open>addClientHeader(req)\<close> dereferences
  it; after a failed \<open>client.Do\<close> with no response \<open>res.Body\<close> dereferences \<open>nil\<close>;
  after a failed read the function goes on with the bytes it has. \<open>unmarshal\<close> is
  \<open>yaml.Unmarshal\<close> at the type of \<open>result\<close>.
\<close>

definition getYamlFrom ::
  "('c, 'm) env \<Rightarrow> (string \<Rightarrow> error + 'a) \<Rightarrow> string \<Rightarrow> string \<Rightarrow> world \<Rightarrow> 'a result" where
  "getYamlFrom env unmarshal url endpoint w =
     (let URL = Join [url, endpoint] ''/'' in
      case NewRequest env URL of
        Some err \<Rightarrow> Panic (log_entry ErrorLevel (Error err) w)
      | None \<Rightarrow>
          (let (res, err) = Do env URL;
               w = w\<lparr>sent := sent w @ [URL]\<rparr>;
               w = (case err of Some e \<Rightarrow> log_entry ErrorLevel (Error e) w | None \<Rightarrow> w)
           in case res of
                None \<Rightarrow> Panic w
              | Some (Response body err) \<Rightarrow>
                  (let w = (case err of Some e \<Rightarrow> log_entry ErrorLevel (Error e) w | None \<Rightarrow> w)
                   in if Contains body ''Application is not available''
                      then log_Fatal ''Generator service is not available'' w
                      else (case unmarshal body of
                              Inl e \<Rightarrow> log_Fatal (Error e) w
                            | Inr v \<Rightarrow> Return v w))))"

definition getGeneratorServiceConfig :: "('c, 'm) env \<Rightarrow> string \<Rightarrow> world \<Rightarrow> 'c result" where
  "getGeneratorServiceConfig env url w = getYamlFrom env (Unmarshal_config env) url ''config'' w"

definition getCompatibleModuleNameFor ::
  "('c, 'm) env \<Rightarrow> Project \<Rightarrow> world \<Rightarrow> string list result" where
  "getCompatibleModuleNameFor env p w =
     bind (getYamlFrom env (Unmarshal_modules env) (UrlService p)
             (''modules/'' @ SpringBootVersion p) w)
       (\<lambda>modules w. Return (GetModuleNamesFor env modules) w)"

section \<open>Paths and files\<close>

subsection \<open>\<open>filepath.Clean\<close> and \<open>filepath.Join\<close> (Unix)\<close>

text \<open>
  \<open>Clean\<close> drops empty and \<open>.\<close> elements and resolves \<open>..\<close> against the element
  before it; a rooted path cannot climb above the root, any other path keeps its
  leading \<open>..\<close> elements. \<open>out\<close> holds the elements kept so far, last first.
\<close>

fun clean_elems :: "bool \<Rightarrow> string list \<Rightarrow> string list \<Rightarrow> string list" where
  "clean_elems rooted out [] = rev out"
| "clean_elems rooted out (c # cs) =
     (if c = [] \<or> c = ''.'' then clean_elems rooted out cs
      else if c = ''..'' then
        (case out of
           t # ts \<Rightarrow>
             if t \<noteq> ''..'' then clean_elems rooted ts cs
             else if rooted then clean_elems rooted out cs
             else clean_elems rooted (c # out) cs
         | [] \<Rightarrow>
             if rooted then clean_elems rooted out cs
             else clean_elems rooted (c # out) cs)
      else clean_elems rooted (c # out) cs)"

definition Clean :: "string \<Rightarrow> string" where
  "Clean path =
     (if path = [] then ''.''
      else
        (let rooted = (hd path = CHR ''/'');
             out = Join (clean_elems rooted [] (split_on CHR ''/'' path)) ''/''
         in if rooted then CHR ''/'' # out
            else if out = [] then ''.''
            else out))"

definition filepath_Join :: "string list \<Rightarrow> string" where
  "filepath_Join elem =
     (case dropWhile (\<lambda>e. e = []) elem of
        [] \<Rightarrow> []
      | es \<Rightarrow> Clean (Join es ''/''))"

subsection \<open>The file system calls\<close>

text \<open>
  The files are kept by the path the program names them with; the paths it passes
  are clean, and nothing is found under the empty path. The root, \<open>.\<close> and every path of \<open>..\<close> elements only are directories
  that are always there. A file or a directory is created with the permission bits
  and the setuid, setgid and sticky bits of the \<open>perm\<close> argument of the creating call,
  less the permission bits of the umask of the process (\<open>perm & ~umask\<close>): under the
  umask 022, \<open>os.ModePerm\<close> (0777) gives 0755 and 0666 gives 0644.
  The calls fail where a path is missing, is a file where a directory is needed, or
  is a directory where a file is needed; permissions are not modelled.
\<close>

type_synonym fs = "(string \<times> node) list"

definition ModeDir :: FileMode where
  "ModeDir = 2147483648"

definition ModePerm :: FileMode where
  "ModePerm = 511"

definition created_mode :: "FileMode \<Rightarrow> FileMode \<Rightarrow> FileMode" where
  "created_mode umask perm = and (and perm 13631999) (not (and umask ModePerm))"

definition stat :: "fs \<Rightarrow> string \<Rightarrow> node option" where
  "stat fs path = (if path = [] then None else map_of fs path)"

definition anchored :: "string \<Rightarrow> bool" where
  "anchored path =
     (path = ''/'' \<or> path = ''.'' \<or>
      (path \<noteq> [] \<and> list_all (\<lambda>c. c = ''..'') (split_on CHR ''/'' path)))"

definition is_dir :: "fs \<Rightarrow> string \<Rightarrow> bool" where
  "is_dir fs path =
     (case stat fs path of
        Some (Dir m) \<Rightarrow> True
      | Some (File m c) \<Rightarrow> False
      | None \<Rightarrow> anchored path)"

definition is_file :: "fs \<Rightarrow> string \<Rightarrow> bool" where
  "is_file fs path = (case stat fs path of Some (File m c) \<Rightarrow> True | _ \<Rightarrow> False)"

definition parent_dir :: "string \<Rightarrow> string" where
  "parent_dir path =
     (case LastIndex path CHR ''/'' of
        None \<Rightarrow> ''.''
      | Some 0 \<Rightarrow> ''/''
      | Some (Suc i) \<Rightarrow> take (Suc i) path)"

definition ENOENT :: "string \<Rightarrow> string \<Rightarrow> error" where
  "ENOENT op path = Err (op @ '' '' @ path @ '': no such file or directory'')"

definition ENOTDIR :: "string \<Rightarrow> string \<Rightarrow> error" where
  "ENOTDIR op path = Err (op @ '' '' @ path @ '': not a directory'')"

definition EEXIST :: "string \<Rightarrow> string \<Rightarrow> error" where
  "EEXIST op path = Err (op @ '' '' @ path @ '': file exists'')"

definition EISDIR :: "string \<Rightarrow> string \<Rightarrow> error" where
  "EISDIR op path = Err (op @ '' '' @ path @ '': is a directory'')"

definition ENOTEMPTY :: "string \<Rightarrow> string \<Rightarrow> error" where
  "ENOTEMPTY op path = Err (op @ '' '' @ path @ '': directory not empty'')"

text \<open>\<open>os.Mkdir\<close>.\<close>

definition Mkdir :: "FileMode \<Rightarrow> fs \<Rightarrow> string \<Rightarrow> FileMode \<Rightarrow> error + fs" where
  "Mkdir umask fs path perm =
     (if path = [] then Inl (ENOENT ''mkdir'' path)
      else if is_dir fs path \<or> is_file fs path then Inl (EEXIST ''mkdir'' path)
      else if is_file fs (parent_dir path) then Inl (ENOTDIR ''mkdir'' path)
      else if \<not> is_dir fs (parent_dir path) then Inl (ENOENT ''mkdir'' path)
      else Inr (AList.update path (Dir (created_mode umask perm)) fs))"

lemma LastIndex_less: "LastIndex path c = Some i \<Longrightarrow> i < length path"
  by (induction path arbitrary: i) (auto split: option.splits if_splits)

text \<open>
  \<open>os.MkdirAll\<close>: nothing to do for a directory, an error for a file; otherwise the
  parent first (the path up to its last separator, when that is not the first byte),
  then \<open>Mkdir\<close>.
\<close>

function MkdirAll :: "FileMode \<Rightarrow> fs \<Rightarrow> string \<Rightarrow> FileMode \<Rightarrow> error + fs" where
  "MkdirAll umask fs path perm =
     (if is_dir fs path then Inr fs
      else if is_file fs path then Inl (ENOTDIR ''mkdir'' path)
      else
        (case LastIndex path CHR ''/'' of
           Some (Suc i) \<Rightarrow>
             (case MkdirAll umask fs (take (Suc i) path) perm of
                Inl err \<Rightarrow> Inl err
              | Inr fs' \<Rightarrow> Mkdir umask fs' path perm)
         | _ \<Rightarrow> Mkdir umask fs path perm))"
  by pat_completeness auto
termination
  by (relation "measure (\<lambda>(umask, fs, path, perm). length path)") (auto dest: LastIndex_less)

declare MkdirAll.simps [simp del]

text \<open>
  \<open>os.OpenFile(name, os.O_WRONLY|os.O_CREATE|os.O_TRUNC, perm)\<close>, the only flags the
  program opens a file with: an existing file is emptied and keeps its mode, a
  missing one is created with \<open>perm\<close> less the umask.
\<close>

definition OpenFile :: "FileMode \<Rightarrow> fs \<Rightarrow> string \<Rightarrow> FileMode \<Rightarrow> error + fs" where
  "OpenFile umask fs name perm =
     (case stat fs name of
        Some (File m c) \<Rightarrow> Inr (AList.update name (File m []) fs)
      | Some (Dir m) \<Rightarrow> Inl (EISDIR ''open'' name)
      | None \<Rightarrow>
          if name = [] then Inl (ENOENT ''open'' name)
          else if anchored name then Inl (EISDIR ''open'' name)
          else if is_file fs (parent_dir name) then Inl (ENOTDIR ''open'' name)
          else if \<not> is_dir fs (parent_dir name) then Inl (ENOENT ''open'' name)
          else Inr (AList.update name (File (created_mode umask perm) []) fs))"

text \<open>Writing through the handle of an open file appends to its bytes.\<close>

definition Write :: "fs \<Rightarrow> string \<Rightarrow> string \<Rightarrow> fs" where
  "Write fs name bytes =
     (case stat fs name of
        Some (File m c) \<Rightarrow> AList.update name (File m (c @ bytes)) fs
      | _ \<Rightarrow> fs)"

text \<open>\<open>ioutil.WriteFile\<close>.\<close>

definition WriteFile :: "FileMode \<Rightarrow> fs \<Rightarrow> string \<Rightarrow> string \<Rightarrow> FileMode \<Rightarrow> error + fs" where
  "WriteFile umask fs name bytes perm =
     (case OpenFile umask fs name perm of
        Inl err \<Rightarrow> Inl err
      | Inr fs \<Rightarrow> Inr (Write fs name bytes))"

text \<open>\<open>os.Remove\<close>: a file, or a directory with nothing below it.\<close>

definition Remove :: "fs \<Rightarrow> string \<Rightarrow> error + fs" where
  "Remove fs name =
     (case stat fs name of
        None \<Rightarrow> Inl (ENOENT ''remove'' name)
      | Some (File m c) \<Rightarrow> Inr (AList.delete name fs)
      | Some (Dir m) \<Rightarrow>
          if list_ex (\<lambda>kv. prefix (name @ ''/'') (fst kv)) fs
          then Inl (ENOTEMPTY ''remove'' name)
          else Inr (AList.delete name fs))"

section \<open>\<open>Unzip\<close>\<close>

definition IsDir :: "zip_file \<Rightarrow> bool" where
  "IsDir f = (and (Mode f) ModeDir \<noteq> 0)"

text \<open>
  The body of the loop over \<open>r.File\<close> for one entry, in a process of the given
  umask: the error it returns with, if any, and the files as it leaves them.
\<close>

definition unzip_entry :: "FileMode \<Rightarrow> string \<Rightarrow> zip_file \<Rightarrow> fs \<Rightarrow> error option \<times> fs" where
  "unzip_entry umask dest f fs =
     (case Open f of
        Inl err \<Rightarrow> (Some err, fs)
      | Inr rc \<Rightarrow>
          (let name = filepath_Join [dest, Name f] in
           if IsDir f then
             (case MkdirAll umask fs name ModePerm of
                Inl err \<Rightarrow> (Some err, fs)
              | Inr fs \<Rightarrow> (None, fs))
           else
             (let fdir = (case LastIndex name CHR ''/'' of
                            Some lastIndex \<Rightarrow> take lastIndex name
                          | None \<Rightarrow> [])
              in case MkdirAll umask fs fdir ModePerm of
                   Inl err \<Rightarrow> (Some err, fs)
                 | Inr fs \<Rightarrow>
                     (case OpenFile umask fs name (Mode f) of
                        Inl err \<Rightarrow> (Some err, fs)
                      | Inr fs \<Rightarrow> (snd rc, Write fs name (fst rc))))))"

fun unzip_entries :: "FileMode \<Rightarrow> string \<Rightarrow> zip_file list \<Rightarrow> fs \<Rightarrow> error option \<times> fs" where
  "unzip_entries umask dest [] fs = (None, fs)"
| "unzip_entries umask dest (f # rest) fs =
     (case unzip_entry umask dest f fs of
        (Some err, fs) \<Rightarrow> (Some err, fs)
      | (None, fs) \<Rightarrow> unzip_entries umask dest rest fs)"

text \<open>
  \<open>zip.OpenReader(src)\<close> opens the file and reads its directory of entries; the
  entries are the ones in the bytes the file holds at that moment.
\<close>

definition Unzip :: "('c, 'm) env \<Rightarrow> string \<Rightarrow> string \<Rightarrow> fs \<Rightarrow> error option \<times> fs" where
  "Unzip env src dest fs =
     (case stat fs src of
        Some (File m bytes) \<Rightarrow>
          (case OpenReader env bytes of
             Inl err \<Rightarrow> (Some err, fs)
           | Inr entries \<Rightarrow> unzip_entries (Umask env) dest entries fs)
      | Some (Dir m) \<Rightarrow> (Some (EISDIR ''read'' src), fs)
      | None \<Rightarrow> (Some (ENOENT ''open'' src), fs))"

section \<open>The command: \<open>RunE\<close> and \<open>main\<close>\<close>

text \<open>
  \<open>RunE\<close> is one closure over the descriptor \<open>p\<close>, which the flags have filled
  before it runs. It is cut here at its blank lines: the Spring Boot version and the
  BOM (lines 103 to 110), the template or the modules (112 to 116), the identifiers
  and the output directory (118 to 124), the request and the extraction (126 to 181).
\<close>

definition choose_version :: "('c, 'm) env \<Rightarrow> 'c \<Rightarrow> Project \<Rightarrow> world \<Rightarrow> Project result" where
  "choose_version env c p w =
     (let (versions, defaultVersion) = GetBOMMap env c in
      bind (Select ''Spring Boot version'' (GetSpringBootVersions env versions) [defaultVersion] w)
        (\<lambda>v w.
           let p = p\<lparr>SpringBootVersion := v\<rparr>;
               bom = lookupBom versions (SpringBootVersion p);
               p = p\<lparr>SnowdropBomVersion := Snowdrop bom\<rparr>
           in if length (Supported bom) > 0
              then bind (Proceed ''Use supported version'' w)
                     (\<lambda>yes w.
                        Return (if yes
                                then p\<lparr>SnowdropBomVersion :=
                                         GetSupportedVersionFor env c (SpringBootVersion p)\<rparr>
                                else p) w)
              else Return p w))"

definition choose_template_or_modules ::
  "('c, 'm) env \<Rightarrow> 'c \<Rightarrow> Project \<Rightarrow> world \<Rightarrow> Project result" where
  "choose_template_or_modules env c p w =
     bind (Proceed ''Create from template'' w)
       (\<lambda>yes w.
          if yes
          then bind (Select ''Available templates'' (GetTemplateNames env c) [] w)
                 (\<lambda>t w. Return (p\<lparr>Template := t\<rparr>) w)
          else bind (getCompatibleModuleNameFor env p w)
                 (\<lambda>names w.
                    bind (MultiSelect ''Select modules'' names w)
                      (\<lambda>ms w. Return (p\<lparr>Modules := ms\<rparr>) w)))"

definition ask_identifiers :: "('c, 'm) env \<Rightarrow> Project \<Rightarrow> world \<Rightarrow> Project result" where
  "ask_identifiers env p w =
     bind (Ask ''Group Id'' [''me.snowdrop''] w)
       (\<lambda>g w. let p = p\<lparr>GroupId := g\<rparr> in
     bind (Ask ''Artifact Id'' [''myproject''] w)
       (\<lambda>a w. let p = p\<lparr>ArtifactId := a\<rparr> in
     bind (Ask ''Version'' [''1.0.0-SNAPSHOT''] w)
       (\<lambda>v w. let p = p\<lparr>Version := v\<rparr> in
     bind (Ask ''Package name'' [GroupId p @ ''.'' @ ArtifactId p] w)
       (\<lambda>n w. let p = p\<lparr>PackageName := n\<rparr>;
                   currentDir = Getwd env in
     bind (Ask (''Project location (immediate child directory of '' @ currentDir @ '')'') [] w)
       (\<lambda>d w. Return (p\<lparr>OutDir := d\<rparr>) w)))))"

definition collect :: "('c, 'm) env \<Rightarrow> 'c \<Rightarrow> Project \<Rightarrow> world \<Rightarrow> Project result" where
  "collect env c p w =
     bind (choose_version env c p w)
       (\<lambda>p w. bind (choose_template_or_modules env c p w)
          (\<lambda>p w. ask_identifiers env p w))"

text \<open>
  The request and the extraction. Every error here is returned to the caller. (A
  \<open>nil\<close> response together with a \<open>nil\<close> error is outside the contract of
  \<open>client.Do\<close>; \<open>res.Body\<close> would dereference it.)
\<close>

definition fetch_and_extract :: "('c, 'm) env \<Rightarrow> Project \<Rightarrow> world \<Rightarrow> error option result" where
  "fetch_and_extract env p w =
     (let u = request_url p;
          w = log_entry InfoLevel (''URL of the request calling the service is '' @ u) w
      in case NewRequest env u of
           Some err \<Rightarrow> Return (Some err) w
         | None \<Rightarrow>
             (let (res, err) = Do env u;
                  w = w\<lparr>sent := sent w @ [u]\<rparr>
              in case err of
                   Some e \<Rightarrow> Return (Some e) w
                 | None \<Rightarrow>
                     (case res of
                        None \<Rightarrow> Panic w
                      | Some (Response body err) \<Rightarrow>
                          (case err of
                             Some e \<Rightarrow> Return (Some e) w
                           | None \<Rightarrow>
                               (let dir = filepath_Join [Getwd env, OutDir p];
                                    zipFile = dir @ ''.zip''
                                in case WriteFile (Umask env) (files w) zipFile body 420 of
                                     Inl e \<Rightarrow>
                                       Return (Some (Err (''failed to download file '' @ zipFile
                                                            @ '' due to '' @ Error e))) w
                                   | Inr fs \<Rightarrow>
                                       (case Unzip env zipFile dir fs of
                                          (Some e, fs) \<Rightarrow>
                                            Return (Some (Err (''failed to unzip new project file ''
                                                                 @ zipFile @ '' due to '' @ Error e)))
                                              (w\<lparr>files := fs\<rparr>)
                                        | (None, fs) \<Rightarrow>
                                            (case Remove fs zipFile of
                                               Inl e \<Rightarrow> Return (Some e) (w\<lparr>files := fs\<rparr>)
                                             | Inr fs \<Rightarrow> Return None (w\<lparr>files := fs\<rparr>))))))))"

definition RunE :: "('c, 'm) env \<Rightarrow> Project \<Rightarrow> string list \<Rightarrow> world \<Rightarrow> error option result" where
  "RunE env p args w =
     bind (getGeneratorServiceConfig env (UrlService p) w)
       (\<lambda>c w. bind (collect env c p w) (\<lambda>p w. fetch_and_extract env p w))"

text \<open>The decimal digits of a number, as \<open>%d\<close> prints it.\<close>

function Itoa :: "nat \<Rightarrow> string" where
  "Itoa n =
     (if n < 10 then [char_of (48 + n)]
      else Itoa (n div 10) @ [char_of (48 + n mod 10)])"
  by pat_completeness auto
termination
  by (relation "measure id") auto

declare Itoa.simps [simp del]

text \<open>
  \<open>createCmd.Execute()\<close> with the flags already parsed into \<open>p\<close>:
  \<open>cobra.RangeArgs(0, 1)\<close> refuses more than one positional argument, otherwise
  \<open>RunE\<close> runs and its error is the one \<open>Execute\<close> returns. (What cobra itself
  writes about the error goes to standard error, which is not part of the state.)
\<close>

definition Execute :: "('c, 'm) env \<Rightarrow> Project \<Rightarrow> string list \<Rightarrow> world \<Rightarrow> error option result" where
  "Execute env p args w =
     (if length args > 1
      then Return (Some (Err (''accepts between 0 and 1 arg(s), received '' @ Itoa (length args)))) w
      else RunE env p args w)"

text \<open>
  \<open>main\<close>: the exit status of the process and the state it leaves. After
  \<open>Execute\<close> returns, \<open>main\<close> prints the error if there is one and returns, which
  ends a Go process with status 0.
\<close>

definition main :: "('c, 'm) env \<Rightarrow> Project \<Rightarrow> string list \<Rightarrow> world \<Rightarrow> nat \<times> world" where
  "main env p args w =
     (case Execute env p args w of
        Return err w \<Rightarrow>
          (case err of
             Some e \<Rightarrow> (0, print (Error e) w)
           | None \<Rightarrow> (0, w))
      | Exit code w \<Rightarrow> (code, w)
      | Panic w \<Rightarrow> (2, w))"

text \<open>The descriptor when no flag is given: the flags' default values.\<close>

definition ServiceEndpoint :: string where
  "ServiceEndpoint = ''http://spring-boot-generator.195.201.87.126.nip.io''"

definition no_flags :: Project where
  "no_flags =
     \<lparr>Template = [], UrlService = ServiceEndpoint, Modules = [], GroupId = [],
      ArtifactId = [], Version = [], PackageName = [], SpringBootVersion = [],
      SnowdropBomVersion = [], OutDir = []\<rparr>"

section \<open>The prompt contract, and the inputs of the examples\<close>

text \<open>
  The one contract of the prompt layer, in the words of the specification: an
  interrupt ends the process (with status 1), any other failure is reported on
  standard output and the operation goes on with the zero value of its result type.
\<close>

definition error_contract :: "error \<Rightarrow> 'a \<Rightarrow> world \<Rightarrow> 'a result" where
  "error_contract e zero w =
     (if e = InterruptErr then Exit 1 w
      else Return zero (print (''Encountered an error processing prompt: '' @ Error e) w))"

text \<open>
  A run starts with the replies the terminal will give and the files on disk;
  nothing shown, printed, logged or sent yet.
\<close>

definition start :: "reply list \<Rightarrow> fs \<Rightarrow> world" where
  "start rs fs = \<lparr>replies = rs, shown = [], stdout = [], logged = [], sent = [], files = fs\<rparr>"

text \<open>
  The descriptor of the example: no template, the modules \<open>web\<close> and \<open>data-jpa\<close>.
\<close>

definition example_descriptor :: Project where
  "example_descriptor =
     \<lparr>Template = [], UrlService = ''http://gen'', Modules = [''web'', ''data-jpa''],
      GroupId = ''me.snowdrop'', ArtifactId = ''myproject'', Version = ''1.0.0-SNAPSHOT'',
      PackageName = ''me.snowdrop.myproject'', SpringBootVersion = ''2.1.0'',
      SnowdropBomVersion = ''x.y'', OutDir = ''out''\<rparr>"

text \<open>
  A generator service at \<open>http://gen\<close> with one Spring Boot version, two templates
  and two modules, which answers the archive request with a zip archive of one
  directory (recorded with mode 0755) and one file of mode 0644 (420); the process
  runs under the usual umask 022 (18). The configuration types are not looked into,
  so they are \<open>unit\<close> here.
\<close>

definition example_archive :: "zip_file list" where
  "example_archive =
     [\<lparr>Name = ''src/'', Mode = 2147484141, Open = Inr ([], None)\<rparr>,
      \<lparr>Name = ''src/App.java'', Mode = 420, Open = Inr (''class App {}'', None)\<rparr>]"

definition example_env :: "(unit, unit) env" where
  "example_env =
     \<lparr>Getwd = ''/work'',
      NewRequest = (\<lambda>u. None),
      Do = (\<lambda>u. if u = ''http://gen/config'' then (Some (Response ''config'' None), None)
                else if u = ''http://gen/modules/2.1.0'' then (Some (Response ''modules'' None), None)
                else (Some (Response ''PK'' None), None)),
      Unmarshal_config = (\<lambda>b. Inr ()),
      Unmarshal_modules = (\<lambda>b. Inr ()),
      GetBOMMap = (\<lambda>c. ([''2.1.0'' \<mapsto> \<lparr>Snowdrop = ''x.y'', Supported = [''a.b'']\<rparr>], ''2.1.0'')),
      GetSpringBootVersions = (\<lambda>m. [''2.1.0'']),
      GetSupportedVersionFor = (\<lambda>c v. ''a.b''),
      GetTemplateNames = (\<lambda>c. [''rest'', ''crud'']),
      GetModuleNamesFor = (\<lambda>m. [''web'', ''data-jpa'']),
      OpenReader = (\<lambda>b. if b = ''PK'' then Inr example_archive
                        else Inl (Err ''zip: not a valid zip file'')),
      Umask = 18\<rparr>"

text \<open>The command line \<open>scaffold --urlservice http://gen\<close>.\<close>

definition example_flags :: Project where
  "example_flags = no_flags\<lparr>UrlService := ''http://gen''\<rparr>"

text \<open>
  A user who takes version 2.1.0, declines the supported BOM, declines the
  template, picks both modules, accepts the four defaults and names the directory
  \<open>out\<close>; the working directory \<open>/work\<close> exists.
\<close>

definition example_replies :: "reply list" where
  "example_replies =
     [Answer (Choice ''2.1.0''), Answer (YesNo False), Answer (YesNo False),
      Answer (Choices [''web'', ''data-jpa'']), Answer (Line []), Answer (Line []),
      Answer (Line []), Answer (Line []), Answer (Line ''out'')]"

definition example_files :: fs where
  "example_files = [(''/work'', Dir 493)]"

text \<open>The same service answering every request with its unavailability page.\<close>

definition unavailable_env :: "(unit, unit) env" where
  "unavailable_env =
     example_env\<lparr>Do := (\<lambda>u. (Some (Response ''<h1>Application is not available</h1>'' None), None))\<rparr>"

text \<open>The same service refusing the connection of the archive request.\<close>

definition refusing_env :: "(unit, unit) env" where
  "refusing_env =
     example_env\<lparr>Do := (\<lambda>u. if u = ''http://gen/config'' then (Some (Response ''config'' None), None)
                else if u = ''http://gen/modules/2.1.0'' then (Some (Response ''modules'' None), None)
                else (None, Some (Err ''Get http://gen/app: connection refused'')))\<rparr>"


text \<open>The prompts of the example run, in the order they are shown.\<close>

definition example_prompts :: "prompt list" where
  "example_prompts =
     [SelectPrompt ''Spring Boot version'' [''2.1.0''] (Some ''2.1.0''),
      Confirm ''Use supported version'',
      Confirm ''Create from template'',
      MultiSelectPrompt ''Select modules'' [''web'', ''data-jpa''],
      Input ''Group Id'' ''me.snowdrop'',
      Input ''Artifact Id'' ''myproject'',
      Input ''Version'' ''1.0.0-SNAPSHOT'',
      Input ''Package name'' ''me.snowdrop.myproject'',
      Input ''Project location (immediate child directory of /work)'' []]"

text \<open>The command line \<open>scaffold --urlservice http://gen --module web\<close>.\<close>

definition module_flag :: Project where
  "module_flag = example_flags\<lparr>Modules := [''web'']\<rparr>"

text \<open>
  The command line with every flag of a template project:
  \<open>scaffold -u http://gen -t rest -g com.acme -i demo -v 0.0.1 -p com.acme.demo -s 2.1.0 -b a.b\<close>.
\<close>

definition all_flags :: Project where
  "all_flags =
     \<lparr>Template = ''rest'', UrlService = ''http://gen'', Modules = [], GroupId = ''com.acme'',
      ArtifactId = ''demo'', Version = ''0.0.1'', PackageName = ''com.acme.demo'',
      SpringBootVersion = ''2.1.0'', SnowdropBomVersion = ''a.b'', OutDir = []\<rparr>"

text \<open>A user who asks for a template and picks \<open>rest\<close>.\<close>

definition template_replies :: "reply list" where
  "template_replies =
     [Answer (Choice ''2.1.0''), Answer (YesNo False), Answer (YesNo True),
      Answer (Choice ''rest''), Answer (Line []), Answer (Line []),
      Answer (Line []), Answer (Line []), Answer (Line ''out'')]"

text \<open>The same user, whose terminal fails at the choice of the template.\<close>

definition failing_replies :: "reply list" where
  "failing_replies =
     [Answer (Choice ''2.1.0''), Answer (YesNo False), Answer (YesNo True),
      Fail (Err ''tty closed''), Answer (Line []), Answer (Line []),
      Answer (Line []), Answer (Line []), Answer (Line ''out'')]"



text \<open>
  A service whose archive holds one file entry, of mode 0644, named \<open>../evil\<close>; and the
  files of the working directory once that archive is downloaded to \<open>/work/out.zip\<close>.
\<close>

definition escaping_archive :: "zip_file list" where
  "escaping_archive = [\<lparr>Name = ''../evil'', Mode = 420, Open = Inr (''x'', None)\<rparr>]"

definition escaping_env :: "(unit, unit) env" where
  "escaping_env = example_env\<lparr>OpenReader := (\<lambda>b. Inr escaping_archive)\<rparr>"

definition downloaded_files :: fs where
  "downloaded_files = [(''/work'', Dir 493), (''/work/out.zip'', File 420 ''PK'')]"

section \<open>Vocabulary of the proofs\<close>

text \<open>The value a call returns, when it returns, and the state it ends in.\<close>

definition returned :: "'a result \<Rightarrow> 'a option" where
  "returned r = (case r of Return a w \<Rightarrow> Some a | Exit c w \<Rightarrow> None | Panic w \<Rightarrow> None)"


text \<open>The path an entry of the archive is extracted to (\<open>name\<close> in \<open>Unzip\<close>).\<close>

definition target :: "string \<Rightarrow> zip_file \<Rightarrow> string" where
  "target dest f = filepath_Join [dest, Name f]"

text \<open>A path is inside a directory: the directory itself, or a path below it.\<close>

definition inside :: "string \<Rightarrow> string \<Rightarrow> bool" where
  "inside dir path = (path = dir \<or> prefix (dir @ ''/'') path)"

text \<open>The paths the file entries of an archive are extracted to.\<close>

definition file_targets :: "string \<Rightarrow> zip_file list \<Rightarrow> string set" where
  "file_targets dest es = set (map (target dest) (filter (\<lambda>f. \<not> IsDir f) es))"

text \<open>
  The directories above a path, from the top down to its parent; the root, the
  working directory and the directories above it, which are always there, are left
  out. \<open>ancestors ''/work/out/src''\<close> is \<open>[''/work'', ''/work/out'']\<close>.
\<close>

function ancestors :: "string \<Rightarrow> string list" where
  "ancestors path =
     (if anchored path then []
      else
        (case LastIndex path CHR ''/'' of
           Some (Suc i) \<Rightarrow> ancestors (take (Suc i) path) @ [take (Suc i) path]
         | _ \<Rightarrow> []))"
  by pat_completeness auto
termination
  by (relation "measure length") (auto dest: LastIndex_less)

declare ancestors.simps [simp del]

text \<open>
  The files form a tree, as on every disk: whatever is there is in a directory.
\<close>

definition tree :: "fs \<Rightarrow> bool" where
  "tree fs = list_all (\<lambda>(q, n). is_dir fs (parent_dir q)) fs"

text \<open>
  From \<open>fs\<close> to \<open>fs'\<close> nothing changed but directories made where there was nothing,
  with the mode \<open>os.ModePerm\<close> less the umask.
\<close>

definition only_dirs_added :: "FileMode \<Rightarrow> fs \<Rightarrow> fs \<Rightarrow> bool" where
  "only_dirs_added umask fs fs' =
     (\<forall>q. stat fs' q = stat fs q \<or>
          (stat fs q = None \<and> stat fs' q = Some (Dir (created_mode umask ModePerm))))"

text \<open>
  The same outside the paths \<open>T\<close>, which were no directories and now are files.
\<close>

definition written_over :: "FileMode \<Rightarrow> string set \<Rightarrow> fs \<Rightarrow> fs \<Rightarrow> bool" where
  "written_over umask T fs fs' =
     ((\<forall>q. q \<notin> T \<longrightarrow>
           stat fs' q = stat fs q \<or>
           (stat fs q = None \<and> stat fs' q = Some (Dir (created_mode umask ModePerm))))
      \<and> (\<forall>q \<in> T. \<not> is_dir fs q \<and> is_file fs' q))"

text \<open>
  The mode of the file \<open>os.OpenFile\<close> leaves at \<open>name\<close> when called with \<open>perm\<close> in
  the files \<open>fs\<close>: "If the file does not exist, and the \<open>O_CREATE\<close> flag is passed,
  it is created with mode perm (before umask)", so with \<open>perm\<close> less the umask; a
  file that exists keeps its mode.
\<close>

definition kept_mode :: "FileMode \<Rightarrow> fs \<Rightarrow> string \<Rightarrow> FileMode \<Rightarrow> FileMode" where
  "kept_mode umask fs name perm =
     (case stat fs name of Some (File m c) \<Rightarrow> m | _ \<Rightarrow> created_mode umask perm)"


text \<open>
  Two descriptors that agree on the service URL, the template and the modules; and
  two that agree on the Spring Boot version and the BOM as well.
\<close>

definition same_url_template_modules :: "Project \<Rightarrow> Project \<Rightarrow> bool" where
  "same_url_template_modules p q =
     (UrlService p = UrlService q \<and> Template p = Template q \<and> Modules p = Modules q)"

definition same_but_identifiers :: "Project \<Rightarrow> Project \<Rightarrow> bool" where
  "same_but_identifiers p q =
     (same_url_template_modules p q \<and> SpringBootVersion p = SpringBootVersion q \<and>
      SnowdropBomVersion p = SnowdropBomVersion q)"

section \<open>The library functions on the examples of their documentation\<close>

text \<open>
  \<open>strings.Contains\<close> holds exactly when \<open>sub\<close> occurs in \<open>s\<close>; the other functions
  are run on examples of the Go documentation and tests.
\<close>

lemma Contains_iff: "Contains s sub \<longleftrightarrow> (\<exists>ps ss. s = ps @ sub @ ss)"
proof (induction s)
  case Nil
  then show ?case by auto
next
  case (Cons c s)
  have "(\<exists>ps ss. c # s = ps @ sub @ ss) \<longleftrightarrow> prefix sub (c # s) \<or> (\<exists>ps ss. s = ps @ sub @ ss)"
  proof
    assume "\<exists>ps ss. c # s = ps @ sub @ ss"
    then obtain ps ss where e: "c # s = ps @ sub @ ss" by blast
    show "prefix sub (c # s) \<or> (\<exists>ps ss. s = ps @ sub @ ss)"
    proof (cases ps)
      case Nil
      with e show ?thesis by (auto simp: prefix_def)
    next
      case (Cons x ps')
      with e have "s = ps' @ sub @ ss" by simp
      then show ?thesis by blast
    qed
  next
    assume "prefix sub (c # s) \<or> (\<exists>ps ss. s = ps @ sub @ ss)"
    then show "\<exists>ps ss. c # s = ps @ sub @ ss"
    proof
      assume "prefix sub (c # s)"
      then obtain ss where "c # s = sub @ ss" by (auto simp: prefix_def)
      then have "c # s = [] @ sub @ ss" by simp
      then show ?thesis by blast
    next
      assume "\<exists>ps ss. s = ps @ sub @ ss"
      then obtain ps ss where "s = ps @ sub @ ss" by blast
      then have "c # s = (c # ps) @ sub @ ss" by simp
      then show ?thesis by blast
    qed
  qed
  with Cons show ?case by simp
qed

lemma LastIndex_examples:
  "LastIndex ''/work/out/src'' CHR ''/'' = Some 9"
  "LastIndex ''/x'' CHR ''/'' = Some 0"
  "LastIndex ''x'' CHR ''/'' = None"
  by code_simp+

lemma QueryEscape_examples:
  "QueryEscape ''data-jpa'' = ''data-jpa''"
  "QueryEscape ''a b&c=d/e~f'' = ''a+b%26c%3Dd%2Fe~f''"
  "QueryEscape ''1.0.0-SNAPSHOT'' = ''1.0.0-SNAPSHOT''"
  by code_simp+

lemma Encode_example:
  "Encode (Add (Add (Add [] ''name'' ''Ava'') ''friend'' ''Jess'') ''friend'' ''Sarah'')
     = ''friend=Jess&friend=Sarah&name=Ava''"
  by code_simp

lemma Clean_examples:
  "Clean '''' = ''.''"
  "Clean ''/'' = ''/''"
  "Clean ''abc//def//ghi'' = ''abc/def/ghi''"
  "Clean ''abc/def/'' = ''abc/def''"
  "Clean ''abc/./def'' = ''abc/def''"
  "Clean ''abc/def/../ghi'' = ''abc/ghi''"
  "Clean ''abc/def/../../..'' = ''..''"
  "Clean ''/abc/def/../../..'' = ''/''"
  "Clean ''../../abc'' = ''../../abc''"
  "Clean ''abc/../../././../def'' = ''../../def''"
  "Clean ''/../abc'' = ''/abc''"
  by code_simp+

lemma filepath_Join_examples:
  "filepath_Join [''a'', ''b'', ''c''] = ''a/b/c''"
  "filepath_Join [''a'', ''b/c''] = ''a/b/c''"
  "filepath_Join [''a/b'', ''/c''] = ''a/b/c''"
  "filepath_Join [''a/b'', ''../../../xyz''] = ''../xyz''"
  "filepath_Join ['''', ''''] = ''''"
  "filepath_Join [''a'', ''''] = ''a''"
  "filepath_Join ['''', ''a''] = ''a''"
  by code_simp+

lemma Itoa_examples:
  "Itoa 0 = ''0''"
  "Itoa 2 = ''2''"
  "Itoa 1024 = ''1024''"
  by code_simp+

lemma Execute_two_arguments:
  "Execute env p [''a'', ''b''] w = Return (Some (Err ''accepts between 0 and 1 arg(s), received 2'')) w"
  by (simp add: Execute_def Itoa_examples(2)[unfolded numeral_2_eq_2])

section \<open>The query of the archive request\<close>

subsection \<open>\<open>url.Values\<close>: keys and values\<close>

lemma keys_Add: "set (map fst (Add m k v)) = insert k (set (map fst m))"
  by (induction m k v rule: Add.induct) auto

lemma distinct_Add: "distinct (map fst m) \<Longrightarrow> distinct (map fst (Add m k v))"
proof (induction m k v rule: Add.induct)
  case (1 k v)
  then show ?case by simp
next
  case (2 k' vs m k v)
  have "set (map fst (Add m k v)) = insert k (set (map fst m))" by (rule keys_Add)
  with 2 show ?case by auto
qed

lemma map_of_Add:
  "map_of (Add m k v) k' =
     (if k' = k then Some ((case map_of m k of None \<Rightarrow> [] | Some vs \<Rightarrow> vs) @ [v]) else map_of m k')"
  by (induction m k v rule: Add.induct) auto

lemma values_of_Add:
  "values_of (Add m k v) k' = (if k' = k then values_of m k @ [v] else values_of m k')"
  by (simp add: values_of_def map_of_Add)

lemma values_of_add_modules:
  "values_of (add_modules form vs) k =
     (if k = ''module'' then values_of form k @ filter (\<lambda>v. v \<noteq> []) vs else values_of form k)"
  by (induction form vs rule: add_modules.induct) (simp_all add: values_of_Add)

lemma keys_add_modules:
  "k \<in> set (map fst (add_modules form vs)) \<Longrightarrow> k = ''module'' \<or> k \<in> set (map fst form)"
proof (induction form vs rule: add_modules.induct)
  case (1 form)
  then show ?case by simp
next
  case (2 form v vs)
  then show ?case using keys_Add[of form "''module''" v] by (auto split: if_splits)
qed

lemma values_of_Nil: "values_of [] k = []"
  by (simp add: values_of_def)

lemma values_of_Cons: "values_of ((k, vs) # m) k' = (if k = k' then vs else values_of m k')"
  by (simp add: values_of_def)

lemma distinct_add_modules:
  "distinct (map fst form) \<Longrightarrow> distinct (map fst (add_modules form vs))"
  by (induction form vs rule: add_modules.induct) (simp_all add: distinct_Add)

lemma values_of_absent: "k \<notin> set (map fst m) \<Longrightarrow> values_of m k = []"
  by (simp add: values_of_def map_of_eq_None_iff[THEN iffD2] image_iff split: option.splits)

lemma concat_single_key:
  "distinct ks \<Longrightarrow>
   concat (map (\<lambda>k. if k = key then X else []) ks) = (if key \<in> set ks then X else [])"
  by (induction ks) auto

lemma filter_pairs:
  assumes "distinct (map fst m)"
  shows "filter (\<lambda>kv. fst kv = key) (pairs m) = map (Pair key) (values_of m key)"
proof -
  let ?ks = "sort (map fst m)"
  have d: "distinct ?ks" using assms by simp
  have "filter (\<lambda>kv. fst kv = key) (pairs m)
      = concat (map (\<lambda>k. filter (\<lambda>kv. fst kv = key) (map (Pair k) (values_of m k))) ?ks)"
    by (simp add: pairs_def filter_concat comp_def)
  also have "\<dots> = concat (map (\<lambda>k. if k = key then map (Pair key) (values_of m key) else []) ?ks)"
    by (rule arg_cong[where f = concat], rule map_cong) (auto simp: filter_map comp_def)
  also have "\<dots> = (if key \<in> set ?ks then map (Pair key) (values_of m key) else [])"
    using d by (rule concat_single_key)
  also have "\<dots> = map (Pair key) (values_of m key)"
    by (auto simp: values_of_absent)
  finally show ?thesis .
qed

lemma distinct_build_form: "distinct (map fst (build_form p))"
  by (simp add: build_form_def Let_def distinct_add_modules distinct_Add)

lemma module_pairs:
  "filter (\<lambda>kv. fst kv = ''module'') (pairs (build_form p))
     = map (Pair ''module'') (filter (\<lambda>v. v \<noteq> []) (Modules p))"
  by (simp add: filter_pairs distinct_build_form)
     (simp add: build_form_def Let_def values_of_add_modules values_of_Cons values_of_Nil)

lemma template_pairs:
  "filter (\<lambda>kv. fst kv = ''template'') (pairs (build_form p)) = [(''template'', Template p)]"
  by (simp add: filter_pairs distinct_build_form)
     (simp add: build_form_def Let_def values_of_add_modules values_of_Cons values_of_Nil)

subsection \<open>The rendered query read back\<close>

lemma upperhex_nth: "i < 16 \<Longrightarrow> upperhex ! i \<in> set upperhex"
  by (rule nth_mem) (simp add: upperhex_def)

lemma escape_byte_chars:
  assumes "x \<in> set (escape_byte c)"
  shows "x \<noteq> CHR ''&'' \<and> x \<noteq> CHR ''=''"
proof -
  have lt: "(of_char c :: nat) div 16 < 16" "(of_char c :: nat) mod 16 < 16"
    using nat_of_char_less_256[of c] by (simp_all add: less_mult_imp_div_less)
  have hex: "y \<in> set upperhex \<Longrightarrow> y \<noteq> CHR ''&'' \<and> y \<noteq> CHR ''=''" for y
    by (auto simp: upperhex_def)
  show ?thesis
  proof (cases "c = CHR '' ''")
    case True
    with assms show ?thesis by (simp add: escape_byte_def)
  next
    case sp: False
    show ?thesis
    proof (cases "unreserved c")
      case True
      with sp assms have "x = c" by (simp add: escape_byte_def)
      with True show ?thesis by (auto simp: unreserved_def Let_def)
    next
      case False
      with sp assms have "x = CHR ''%'' \<or> x = upperhex ! ((of_char c :: nat) div 16)
          \<or> x = upperhex ! ((of_char c :: nat) mod 16)"
        by (simp add: escape_byte_def)
      then show ?thesis using hex upperhex_nth lt by auto
    qed
  qed
qed

lemma QueryEscape_chars: "x \<in> set (QueryEscape s) \<Longrightarrow> x \<noteq> CHR ''&'' \<and> x \<noteq> CHR ''=''"
  using escape_byte_chars by (auto simp: QueryEscape_def)

lemma split_on_no_sep: "c \<notin> set xs \<Longrightarrow> split_on c xs = [xs]"
  by (induction xs) auto

lemma split_on_append: "c \<notin> set xs \<Longrightarrow> split_on c (xs @ c # ys) = xs # split_on c ys"
  by (induction xs) (auto split: list.splits)

lemma split_on_Join:
  "rs \<noteq> [] \<Longrightarrow> \<forall>r \<in> set rs. c \<notin> set r \<Longrightarrow> split_on c (Join rs [c]) = rs"
proof (induction rs "[c]" rule: Join.induct)
  case 1
  then show ?case by simp
next
  case (2 x)
  then show ?case by (simp add: split_on_no_sep)
next
  case (3 x y ys)
  then show ?case by (simp add: split_on_append)
qed

lemma render_no_amp: "CHR ''&'' \<notin> set (render kv)"
  using QueryEscape_chars by (auto simp: render_def)

lemma render_ne: "render kv \<noteq> []"
  by (simp add: render_def)

lemma Join_ne: "rs \<noteq> [] \<Longrightarrow> \<forall>r \<in> set rs. r \<noteq> [] \<Longrightarrow> Join rs sep \<noteq> []"
  by (induction rs sep rule: Join.induct) auto

lemma read_render:
  "takeWhile (\<lambda>c. c \<noteq> CHR ''='') (render kv) = QueryEscape (fst kv)"
  "drop (Suc 0) (dropWhile (\<lambda>c. c \<noteq> CHR ''='') (render kv)) = QueryEscape (snd kv)"
proof -
  have k: "\<forall>x \<in> set (QueryEscape (fst kv)). x \<noteq> CHR ''=''"
    using QueryEscape_chars by blast
  show "takeWhile (\<lambda>c. c \<noteq> CHR ''='') (render kv) = QueryEscape (fst kv)"
    "drop (Suc 0) (dropWhile (\<lambda>c. c \<noteq> CHR ''='') (render kv)) = QueryEscape (snd kv)"
    unfolding render_def using k
    by (simp_all add: takeWhile_append2 dropWhile_append2)
qed

lemma query_params_Encode:
  "query_params (Encode m) = map (\<lambda>kv. (QueryEscape (fst kv), QueryEscape (snd kv))) (pairs m)"
proof (cases "pairs m = []")
  case True
  then show ?thesis by (simp add: Encode_def query_params_def)
next
  case False
  then have ne: "map render (pairs m) \<noteq> []" by simp
  have amp: "\<forall>r \<in> set (map render (pairs m)). CHR ''&'' \<notin> set r"
    using render_no_amp by auto
  have "Join (map render (pairs m)) ''&'' \<noteq> []"
    using ne by (rule Join_ne) (auto simp: render_ne)
  moreover have "split_on CHR ''&'' (Join (map render (pairs m)) ''&'') = map render (pairs m)"
    using ne amp by (rule split_on_Join)
  ultimately show ?thesis
    by (simp add: Encode_def query_params_def read_render comp_def)
qed

lemma keys_pairs: "kv \<in> set (pairs m) \<Longrightarrow> fst kv \<in> set (map fst m)"
  by (force simp: pairs_def)

lemma keys_build_form:
  "k \<in> set (map fst (build_form p)) \<Longrightarrow>
   k \<in> {''module'', ''template'', ''groupid'', ''artifactid'', ''version'', ''packagename'',
        ''snowdropbom'', ''springbootversion'', ''outdir''}"
  unfolding build_form_def Let_def
  by (drule keys_add_modules) (auto simp: keys_Add)

lemma QueryEscape_key:
  "k \<in> {''module'', ''template'', ''groupid'', ''artifactid'', ''version'', ''packagename'',
        ''snowdropbom'', ''springbootversion'', ''outdir''} \<Longrightarrow> QueryEscape k = k"
  by (auto simp: QueryEscape_def escape_byte_def unreserved_def)

lemma query_params_build_form:
  "query_params (Encode (build_form p))
     = map (\<lambda>kv. (fst kv, QueryEscape (snd kv))) (pairs (build_form p))"
  unfolding query_params_Encode
  by (rule map_cong) (auto dest!: keys_pairs keys_build_form QueryEscape_key simp del: set_map)

lemma filter_key_map:
  "filter (\<lambda>kv. fst kv = k) (map (\<lambda>kv. (fst kv, f (snd kv))) xs)
     = map (\<lambda>kv. (fst kv, f (snd kv))) (filter (\<lambda>kv. fst kv = k) xs)"
  by (induction xs) auto

lemma example_query:
  "Encode (build_form example_descriptor) =
     ''artifactid=myproject&groupid=me.snowdrop&module=web&module=data-jpa&outdir=out&packagename=me.snowdrop.myproject&snowdropbom=x.y&springbootversion=2.1.0&template=&version=1.0.0-SNAPSHOT''"
  by code_simp

text \<open>
  C3, as stated, fails: \<open>form.Add("template", p.Template)\<close> is not guarded, so the
  query of the example descriptor (template empty, modules \<open>web\<close> and \<open>data-jpa\<close>)
  does hold a \<open>template\<close> parameter, with an empty value.
\<close>

theorem query_has_template_counterexample:
  "Template example_descriptor = [] \<and>
   Modules example_descriptor = [''web'', ''data-jpa''] \<and>
   (''template'', []) \<in> set (query_params (Encode (build_form example_descriptor)))"
  by code_simp

text \<open>
  C3, amended: for every descriptor the encoded query holds one \<open>module\<close> parameter
  per non-empty module entry, in the order of the selection, and exactly one
  \<open>template\<close> parameter, whose value is the (escaped) template, empty when the
  template is empty. For the template \<open>""\<close> and the modules \<open>web\<close>, \<open>data-jpa\<close>
  these are \<open>module=web\<close>, \<open>module=data-jpa\<close> and \<open>template=\<close>.
\<close>

theorem query_has_modules_and_template:
  "filter (\<lambda>kv. fst kv = ''module'') (query_params (Encode (build_form p)))
     = map (\<lambda>v. (''module'', QueryEscape v)) (filter (\<lambda>v. v \<noteq> []) (Modules p))
   \<and> filter (\<lambda>kv. fst kv = ''template'') (query_params (Encode (build_form p)))
     = [(''template'', QueryEscape (Template p))]"
  by (simp add: query_params_build_form filter_key_map module_pairs template_pairs comp_def)

section \<open>The order in which options are presented\<close>

lemma sort_same_elements: "mset xs = mset ys \<Longrightarrow> sort xs = sort (ys :: string list)"
  by (rule properties_for_sort) simp_all

lemma ui_Select_any_order:
  "mset xs = mset ys \<Longrightarrow> ui_Select message xs defaultValue w = ui_Select message ys defaultValue w"
  using sort_same_elements[of xs ys] by (simp add: ui_Select_def)

lemma ui_MultiSelect_any_order:
  "mset xs = mset ys \<Longrightarrow> ui_MultiSelect message xs w = ui_MultiSelect message ys w"
  using sort_same_elements[of xs ys] by (simp add: ui_MultiSelect_def)

text \<open>
  The helpers of \<open>pkg/ui\<close> present \<open>c, a, b\<close> as \<open>a, b, c\<close>.
\<close>

lemma ui_Select_example:
  "ui_Select ''Available templates'' [''c'', ''a'', ''b''] [] (start [Answer (Choice ''b'')] [])
     = Return ''b'' ((start [] []) \<lparr>shown := [SelectPrompt ''Available templates'' [''a'', ''b'', ''c''] None]\<rparr>)"
  by (simp add: ui_Select_def ui_askOne_def AskOne_def start_def ui_HandleError_def bind_def)

text \<open>
  C4 fails on the helpers of package \<open>main\<close>, the ones \<open>RunE\<close> calls: they hand
  the options to the prompt as they come, without the \<open>sort.Strings\<close> of their
  copies in \<open>pkg/ui\<close>. The options \<open>c, a, b\<close> are presented as \<open>c, a, b\<close>, by
  \<open>Select\<close> and by \<open>MultiSelect\<close>.
\<close>

theorem Select_keeps_input_order:
  "Select ''Available templates'' [''c'', ''a'', ''b''] [] (start [Answer (Choice ''b'')] [])
     = Return ''b'' ((start [] []) \<lparr>shown := [SelectPrompt ''Available templates'' [''c'', ''a'', ''b''] None]\<rparr>)
   \<and> MultiSelect ''Select modules'' [''c'', ''a'', ''b''] (start [Answer (Choices [''b''])] [])
     = Return [''b''] ((start [] []) \<lparr>shown := [MultiSelectPrompt ''Select modules'' [''c'', ''a'', ''b'']]\<rparr>)"
  by (simp add: Select_def MultiSelect_def askOne_def AskOne_def start_def HandleError_def bind_def)

section \<open>Errors of the prompts\<close>

lemma HandleError_contract:
  "bind (HandleError (Some e) w) (\<lambda>_ w. Return z w) = error_contract e z w"
  "bind (ui_HandleError (Some e) w) (\<lambda>_ w. Return z w) = error_contract e z w"
  by (simp_all add: HandleError_def ui_HandleError_def error_contract_def bind_def)

text \<open>
  C5: the four prompt operations (\<open>Proceed\<close>, \<open>Select\<close>, \<open>MultiSelect\<close>, \<open>Ask\<close>), in
  package \<open>main\<close> and in \<open>pkg/ui\<close>, treat an error of \<open>survey.AskOne\<close> alike:
  \<open>terminal.InterruptErr\<close> ends the process with status 1; any other error is
  printed on standard output and the operation returns the zero value of its result
  type (\<open>false\<close>, the empty string, the empty list).
\<close>

theorem prompt_error_contract:
  "(AskOne (Confirm message) w = (Inl e, w') \<longrightarrow>
      Proceed message w = error_contract e False w' \<and>
      ui_Proceed message w = error_contract e False w')
   \<and> (AskOne (SelectPrompt message options (if length dv = 1 then Some (dv ! 0) else None)) w = (Inl e, w') \<longrightarrow>
      Select message options dv w = error_contract e [] w')
   \<and> (AskOne (SelectPrompt message (sort options) (if length dv = 1 then Some (dv ! 0) else None)) w = (Inl e, w') \<longrightarrow>
      ui_Select message options dv w = error_contract e [] w')
   \<and> (AskOne (MultiSelectPrompt message options) w = (Inl e, w') \<longrightarrow>
      MultiSelect message options w = error_contract e [] w')
   \<and> (AskOne (MultiSelectPrompt message (sort options)) w = (Inl e, w') \<longrightarrow>
      ui_MultiSelect message options w = error_contract e [] w')
   \<and> (AskOne (Input message (if length dv = 1 then dv ! 0 else [])) w = (Inl e, w') \<longrightarrow>
      Ask message dv w = error_contract e [] w' \<and>
      ui_Ask message dv w = error_contract e [] w')"
  by (simp add: Proceed_def ui_Proceed_def Select_def ui_Select_def MultiSelect_def
        ui_MultiSelect_def Ask_def ui_Ask_def askOne_def ui_askOne_def HandleError_contract)

text \<open>
  The contract at work: ctrl-c at the confirmation ends the process with status 1;
  a closed terminal is reported and the answer is \<open>false\<close>.
\<close>

theorem prompt_error_contract_witness:
  "Proceed ''Create from template'' (start [Fail InterruptErr] []) = Exit 1 ((start [] []) \<lparr>shown := [Confirm ''Create from template'']\<rparr>)
   \<and> ui_Proceed ''Create from template'' (start [Fail (Err ''tty closed'')] [])
       = Return False ((start [] []) \<lparr>shown := [Confirm ''Create from template''],
            stdout := [''Encountered an error processing prompt: tty closed'']\<rparr>)"
  using prompt_error_contract[of "''Create from template''" "start [Fail InterruptErr] []" InterruptErr
          "(start [] []) \<lparr>shown := [Confirm ''Create from template'']\<rparr>"]
        prompt_error_contract[of "''Create from template''" "start [Fail (Err ''tty closed'')] []" "Err ''tty closed''"
          "(start [] []) \<lparr>shown := [Confirm ''Create from template'']\<rparr>"]
  by (simp add: AskOne_def start_def error_contract_def print_def)

section \<open>\<open>getYamlFrom\<close>\<close>

text \<open>
  C10: when the request of \<open>getYamlFrom\<close> fails, the error is logged at error level
  and nothing else is done about it: after a failed \<open>http.NewRequest\<close> the function
  goes on to dereference the \<open>nil\<close> request, after a failed \<open>client.Do\<close> the \<open>nil\<close>
  response (a panic each time, not a fatal exit and not a return), and after a
  failed read of the body it goes on with the bytes read so far, to the same checks
  as after a clean read.
\<close>

theorem getYamlFrom_request_errors_are_only_logged:
  "(NewRequest env (Join [url, endpoint] ''/'') = Some err \<longrightarrow>
      getYamlFrom env unmarshal url endpoint w = Panic (log_entry ErrorLevel (Error err) w))
   \<and> (NewRequest env (Join [url, endpoint] ''/'') = None \<and>
        Do env (Join [url, endpoint] ''/'') = (None, Some err) \<longrightarrow>
      getYamlFrom env unmarshal url endpoint w =
        Panic (log_entry ErrorLevel (Error err) (w\<lparr>sent := sent w @ [Join [url, endpoint] ''/'']\<rparr>)))
   \<and> (NewRequest env (Join [url, endpoint] ''/'') = None \<and>
        Do env (Join [url, endpoint] ''/'') = (Some (Response body (Some err)), None) \<longrightarrow>
      getYamlFrom env unmarshal url endpoint w =
        (let w' = log_entry ErrorLevel (Error err) (w\<lparr>sent := sent w @ [Join [url, endpoint] ''/'']\<rparr>)
         in if Contains body ''Application is not available''
            then log_Fatal ''Generator service is not available'' w'
            else (case unmarshal body of
                    Inl e \<Rightarrow> log_Fatal (Error e) w'
                  | Inr v \<Rightarrow> Return v w')))"
  by (simp add: getYamlFrom_def Let_def split: sum.splits)

text \<open>
  The three failures on the example service: an unparsable URL, a refused
  connection, a body cut short (whose three bytes still unmarshal).
\<close>

theorem getYamlFrom_request_errors_witness:
  "getYamlFrom (example_env\<lparr>NewRequest := (\<lambda>u. Some (Err ''parse error''))\<rparr>)
       (Unmarshal_config example_env) ''http://gen'' ''config'' (start [] [])
     = Panic ((start [] [])\<lparr>logged := [(ErrorLevel, ''parse error'')]\<rparr>)
   \<and> getYamlFrom (example_env\<lparr>Do := (\<lambda>u. (None, Some (Err ''connection refused'')))\<rparr>)
       (Unmarshal_config example_env) ''http://gen'' ''config'' (start [] [])
     = Panic ((start [] [])\<lparr>logged := [(ErrorLevel, ''connection refused'')], sent := [''http://gen/config'']\<rparr>)
   \<and> getYamlFrom (example_env\<lparr>Do := (\<lambda>u. (Some (Response ''ver'' (Some (Err ''unexpected EOF''))), None))\<rparr>)
       (Unmarshal_config example_env) ''http://gen'' ''config'' (start [] [])
     = Return () ((start [] [])\<lparr>logged := [(ErrorLevel, ''unexpected EOF'')], sent := [''http://gen/config'']\<rparr>)"
  using getYamlFrom_request_errors_are_only_logged
          [of "example_env\<lparr>NewRequest := (\<lambda>u. Some (Err ''parse error''))\<rparr>" "''http://gen''" "''config''"
              "Err ''parse error''" "Unmarshal_config example_env" "start [] []"]
        getYamlFrom_request_errors_are_only_logged
          [of "example_env\<lparr>Do := (\<lambda>u. (None, Some (Err ''connection refused'')))\<rparr>" "''http://gen''" "''config''"
              "Err ''connection refused''" "Unmarshal_config example_env" "start [] []"]
        getYamlFrom_request_errors_are_only_logged
          [of "example_env\<lparr>Do := (\<lambda>u. (Some (Response ''ver'' (Some (Err ''unexpected EOF''))), None))\<rparr>"
              "''http://gen''" "''config''" "Err ''unexpected EOF''" "Unmarshal_config example_env" "start [] []" "''ver''"]
  by (simp add: example_env_def start_def log_entry_def Let_def)

lemma getYamlFrom_fatal:
  assumes "NewRequest env (Join [url, endpoint] ''/'') = None"
    and "Do env (Join [url, endpoint] ''/'') = (Some (Response body rerr), derr)"
    and "Contains body ''Application is not available'' \<or> (\<exists>e. unmarshal body = Inl e)"
  shows "\<exists>w' msg. getYamlFrom env unmarshal url endpoint w = Exit 1 w' \<and>
           shown w' = shown w \<and> replies w' = replies w \<and> stdout w' = stdout w \<and>
           files w' = files w \<and> logged w' \<noteq> [] \<and> last (logged w') = (FatalLevel, msg)"
  using assms
  by (auto simp: getYamlFrom_def Let_def log_Fatal_def log_entry_def split: option.splits sum.splits)

text \<open>
  C6: when the body of the answer to the configuration request contains
  \<open>Application is not available\<close>, or does not unmarshal, the process ends with
  status 1 after a log entry at fatal level, and no prompt has been shown and no
  reply read.
\<close>

theorem unavailable_config_is_fatal:
  assumes "length args \<le> 1"
    and "NewRequest env (Join [UrlService p, ''config''] ''/'') = None"
    and "Do env (Join [UrlService p, ''config''] ''/'') = (Some (Response body rerr), derr)"
    and "Contains body ''Application is not available'' \<or> (\<exists>e. Unmarshal_config env body = Inl e)"
  shows "fst (main env p args w) = 1 \<and>
         shown (snd (main env p args w)) = shown w \<and>
         replies (snd (main env p args w)) = replies w \<and>
         (\<exists>msg. last (logged (snd (main env p args w))) = (FatalLevel, msg))"
proof -
  obtain w' msg where
    "getYamlFrom env (Unmarshal_config env) (UrlService p) ''config'' w = Exit 1 w'"
    "shown w' = shown w" "replies w' = replies w" "last (logged w') = (FatalLevel, msg)"
    using getYamlFrom_fatal[where unmarshal = "Unmarshal_config env", OF assms(2,3,4)] by blast
  then show ?thesis
    using assms(1)
    by (auto simp: main_def Execute_def RunE_def getGeneratorServiceConfig_def bind_def)
qed

text \<open>The unavailable service: status 1, no prompt, every reply unread.\<close>

theorem unavailable_config_is_fatal_witness:
  "fst (main unavailable_env example_flags [] (start example_replies example_files)) = 1 \<and>
   shown (snd (main unavailable_env example_flags [] (start example_replies example_files))) = [] \<and>
   replies (snd (main unavailable_env example_flags [] (start example_replies example_files))) = example_replies"
proof -
  have a: "length ([] :: string list) \<le> 1" by simp
  have b: "NewRequest unavailable_env (Join [UrlService example_flags, ''config''] ''/'') = None"
    by (simp add: unavailable_env_def example_env_def)
  have c: "Do unavailable_env (Join [UrlService example_flags, ''config''] ''/'')
             = (Some (Response ''<h1>Application is not available</h1>'' None), None)"
    by (simp add: unavailable_env_def example_env_def)
  have d: "Contains ''<h1>Application is not available</h1>'' ''Application is not available''
             \<or> (\<exists>e. Unmarshal_config unavailable_env ''<h1>Application is not available</h1>'' = Inl e)"
    by simp
  show ?thesis
    using unavailable_config_is_fatal[OF a b c d, of "start example_replies example_files"]
    by (simp add: start_def)
qed

section \<open>The exit status\<close>

lemma main_exit_status:
  "fst (main env p args w) =
     (case Execute env p args w of Return err w' \<Rightarrow> 0 | Exit code w' \<Rightarrow> code | Panic w' \<Rightarrow> 2)"
  by (simp add: main_def split: result.splits option.splits)

lemma main_prints_returned_error:
  "Execute env p args w = Return (Some e) w' \<Longrightarrow> main env p args w = (0, print (Error e) w')"
  by (simp add: main_def)

lemma interrupt_exits_with_status_1:
  "HandleError (Some InterruptErr) w = Exit 1 w"
  by (simp add: HandleError_def)

text \<open>
  C1 fails on the code: when the archive request is refused, \<open>RunE\<close> returns the
  error, \<open>main\<close> prints its text and returns, and the process ends with status 0,
  the status of a successful run.
\<close>

theorem failed_archive_fetch_exits_with_status_0:
  "fst (main refusing_env example_flags [] (start example_replies example_files)) = 0 \<and>
   stdout (snd (main refusing_env example_flags [] (start example_replies example_files)))
     = [''Get http://gen/app: connection refused'']"
  by code_simp

section \<open>Extraction\<close>

subsection \<open>The file system calls\<close>

lemma stat_update:
  "stat (AList.update k v fs) q = (if q = [] then None else if q = k then Some v else stat fs q)"
  by (simp add: stat_def update_conv')


lemma stat_empty: "stat fs [] = None"
  by (simp add: stat_def)


lemma only_dirs_added_refl: "only_dirs_added umask fs fs"
  by (simp add: only_dirs_added_def)

lemma only_dirs_added_trans:
  "only_dirs_added umask fs fs1 \<Longrightarrow> only_dirs_added umask fs1 fs2 \<Longrightarrow> only_dirs_added umask fs fs2"
  unfolding only_dirs_added_def by metis

lemma not_dir_not_file: "\<not> is_dir fs path \<Longrightarrow> \<not> is_file fs path \<Longrightarrow> stat fs path = None"
  by (auto simp: is_dir_def is_file_def split: option.splits node.splits)

lemma is_dir_kept: "only_dirs_added umask fs fs' \<Longrightarrow> is_dir fs q \<Longrightarrow> is_dir fs' q"
  unfolding only_dirs_added_def is_dir_def
  by (metis (mono_tags, lifting) node.simps(6) option.simps(4,5))

text \<open>The files stay a tree.\<close>

lemma tree_iff: "tree fs \<longleftrightarrow> (\<forall>q n. (q, n) \<in> set fs \<longrightarrow> is_dir fs (parent_dir q))"
  by (auto simp: tree_def list_all_iff)

lemma stat_in_set: "stat fs q = Some n \<Longrightarrow> (q, n) \<in> set fs"
  by (auto simp: stat_def split: if_splits dest: map_of_SomeD)

lemma tree_parent: "tree fs \<Longrightarrow> stat fs q = Some n \<Longrightarrow> is_dir fs (parent_dir q)"
  using stat_in_set[of fs q n] by (auto simp: tree_iff)

lemma is_dir_update: "q \<noteq> k \<Longrightarrow> is_dir (AList.update k v fs) q = is_dir fs q"
  by (cases "q = []") (simp_all add: is_dir_def stat_update stat_empty)

lemma set_update: "(q, n) \<in> set (AList.update k v fs) \<Longrightarrow> (q = k \<and> n = v) \<or> (q, n) \<in> set fs"
  by (induction fs) (auto split: if_splits)

lemma tree_update:
  assumes t: "tree fs" and nd: "\<not> is_dir fs k" and pd: "is_dir fs (parent_dir k)"
  shows "tree (AList.update k v fs)"
  unfolding tree_iff
proof (intro allI impI)
  fix q n
  assume "(q, n) \<in> set (AList.update k v fs)"
  then have "q = k \<or> (q, n) \<in> set fs" using set_update by fastforce
  then have d: "is_dir fs (parent_dir q)" using t pd by (auto simp: tree_iff)
  then have "parent_dir q \<noteq> k" using nd by auto
  then show "is_dir (AList.update k v fs) (parent_dir q)"
    using d by (simp add: is_dir_update)
qed

lemma Mkdir_adds_dir:
  assumes "Mkdir umask fs path ModePerm = Inr fs'"
  shows "only_dirs_added umask fs fs' \<and> is_dir fs' path \<and> (tree fs \<longrightarrow> tree fs')"
proof -
  from assms have none: "stat fs path = None"
    and fs': "fs' = AList.update path (Dir (created_mode umask ModePerm)) fs"
    and nd: "\<not> is_dir fs path" and pd: "is_dir fs (parent_dir path)"
    by (auto simp: Mkdir_def not_dir_not_file split: if_splits)
  from assms have ne: "path \<noteq> []" by (auto simp: Mkdir_def split: if_splits)
  have "only_dirs_added umask fs fs' \<and> is_dir fs' path"
    unfolding fs' only_dirs_added_def is_dir_def
    using none ne by (simp add: stat_update stat_empty)
  moreover have "tree fs'" if "tree fs"
    unfolding fs' using that nd pd by (rule tree_update)
  ultimately show ?thesis by blast
qed

lemma MkdirAll_adds_dirs:
  "MkdirAll umask fs path perm = Inr fs' \<Longrightarrow> perm = ModePerm \<Longrightarrow>
   only_dirs_added umask fs fs' \<and> is_dir fs' path \<and> (tree fs \<longrightarrow> tree fs')"
proof (induction umask fs path perm arbitrary: fs' rule: MkdirAll.induct)
  case (1 umask fs path perm)
  show ?case
  proof (cases "is_dir fs path")
    case True
    with "1.prems" show ?thesis by (simp add: MkdirAll.simps[of umask fs path] only_dirs_added_refl)
  next
    case nd: False
    show ?thesis
    proof (cases "is_file fs path")
      case True
      with nd "1.prems" show ?thesis by (simp add: MkdirAll.simps[of umask fs path])
    next
      case nf: False
      show ?thesis
      proof (cases "LastIndex path CHR ''/''")
        case None
        with nd nf "1.prems" have "Mkdir umask fs path ModePerm = Inr fs'"
          by (simp add: MkdirAll.simps[of umask fs path])
        then show ?thesis by (rule Mkdir_adds_dir)
      next
        case (Some j)
        show ?thesis
        proof (cases j)
          case 0
          with Some nd nf "1.prems" have "Mkdir umask fs path ModePerm = Inr fs'"
            by (simp add: MkdirAll.simps[of umask fs path])
          then show ?thesis by (rule Mkdir_adds_dir)
        next
          case (Suc i)
          with Some nd nf "1.prems" obtain fs1 where
            up: "MkdirAll umask fs (take (Suc i) path) perm = Inr fs1" and
            mk: "Mkdir umask fs1 path ModePerm = Inr fs'"
            by (auto simp: MkdirAll.simps[of umask fs path] split: sum.splits)
          have "only_dirs_added umask fs fs1 \<and> (tree fs \<longrightarrow> tree fs1)"
            using "1.IH"[OF nd nf _ _ up] Some Suc "1.prems"(2) by simp
          moreover have "only_dirs_added umask fs1 fs' \<and> is_dir fs' path \<and> (tree fs1 \<longrightarrow> tree fs')"
            using mk by (rule Mkdir_adds_dir)
          ultimately show ?thesis by (blast intro: only_dirs_added_trans)
        qed
      qed
    qed
  qed
qed

lemma OpenFile_result:
  assumes "OpenFile umask fs name perm = Inr fs'"
  shows "\<not> is_dir fs name"
    and "stat fs' name = Some (File (kept_mode umask fs name perm) [])"
    and "q \<noteq> name \<Longrightarrow> stat fs' q = stat fs q"
    and "is_dir fs (parent_dir name) \<or> is_file fs name"
  using assms
  by (auto simp: OpenFile_def kept_mode_def is_dir_def is_file_def stat_update stat_empty
           split: option.splits node.splits if_splits)

lemma OpenFile_tree:
  assumes op: "OpenFile umask fs name perm = Inr fs'" and t: "tree fs"
  shows "tree fs'"
proof -
  have nd: "\<not> is_dir fs name" using op by (rule OpenFile_result(1))
  have pd: "is_dir fs (parent_dir name)"
    using OpenFile_result(4)[OF op] t by (auto simp: is_file_def tree_parent split: option.splits)
  from op obtain n where "fs' = AList.update name n fs"
    by (auto simp: OpenFile_def split: option.splits node.splits if_splits)
  then show ?thesis using tree_update[OF t nd pd] by simp
qed

lemma Write_result:
  "stat fs name = Some (File m c) \<Longrightarrow> stat (Write fs name bytes) name = Some (File m (c @ bytes))"
  "q \<noteq> name \<Longrightarrow> stat (Write fs name bytes) q = stat fs q"
  by (auto simp: Write_def stat_update stat_empty split: option.splits node.splits)

lemma Write_tree:
  assumes t: "tree fs"
  shows "tree (Write fs name bytes)"
proof (cases "stat fs name")
  case None
  then show ?thesis using t by (simp add: Write_def)
next
  case (Some n)
  show ?thesis
  proof (cases n)
    case (Dir m)
    with Some show ?thesis using t by (simp add: Write_def)
  next
    case (File m c)
    with Some have nd: "\<not> is_dir fs name" by (simp add: is_dir_def)
    have pd: "is_dir fs (parent_dir name)" using t Some by (rule tree_parent)
    show ?thesis using Some File tree_update[OF t nd pd] by (simp add: Write_def)
  qed
qed

lemma fdir_is_parent:
  assumes "MkdirAll umask fs (case LastIndex name CHR ''/'' of Some i \<Rightarrow> take i name | None \<Rightarrow> []) ModePerm = Inr fs1"
  shows "(case LastIndex name CHR ''/'' of Some i \<Rightarrow> take i name | None \<Rightarrow> []) = parent_dir name"
proof -
  have empty: "MkdirAll umask fs [] ModePerm = Inl (ENOENT ''mkdir'' [])"
    by (simp add: MkdirAll.simps[of umask fs "[]"] is_dir_def is_file_def stat_empty anchored_def Mkdir_def)
  show ?thesis
  proof (cases "LastIndex name CHR ''/''")
    case None
    with assms empty show ?thesis by simp
  next
    case (Some i)
    with assms empty show ?thesis by (cases i) (auto simp: parent_dir_def)
  qed
qed





lemma ancestors_example: "ancestors ''/work/out/src'' = [''/work'', ''/work/out'']"
  by code_simp

subsection \<open>One entry\<close>

text \<open>One directory entry, extracted.\<close>

lemma unzip_dir_entry:
  assumes "unzip_entry umask dest f fs = (None, fs')" and "IsDir f"
  shows "only_dirs_added umask fs fs'" and "is_dir fs' (target dest f)" and "tree fs \<Longrightarrow> tree fs'"
  using assms MkdirAll_adds_dirs[of umask fs "target dest f" ModePerm]
  by (auto simp: unzip_entry_def target_def Let_def split: sum.splits)

text \<open>One file entry, extracted.\<close>

lemma unzip_file_entry:
  assumes "unzip_entry umask dest f fs = (None, fs')" and "\<not> IsDir f"
  shows "\<exists>fs1 bytes. only_dirs_added umask fs fs1 \<and> Open f = Inr (bytes, None) \<and>
           \<not> is_dir fs1 (target dest f) \<and> is_dir fs1 (parent_dir (target dest f)) \<and>
           stat fs' (target dest f)
             = Some (File (kept_mode umask fs (target dest f) (Mode f)) bytes) \<and>
           (\<forall>q. q \<noteq> target dest f \<longrightarrow> stat fs' q = stat fs1 q) \<and>
           (tree fs \<longrightarrow> tree fs')"
proof -
  let ?name = "filepath_Join [dest, Name f]"
  let ?fdir = "case LastIndex ?name CHR ''/'' of Some i \<Rightarrow> take i ?name | None \<Rightarrow> []"
  from assms obtain rc fs1 fs2 where
    rc: "Open f = Inr rc" and
    mk: "MkdirAll umask fs ?fdir ModePerm = Inr fs1" and
    op: "OpenFile umask fs1 ?name (Mode f) = Inr fs2" and
    res: "snd rc = None" "fs' = Write fs2 ?name (fst rc)"
    by (auto simp: unzip_entry_def Let_def split: sum.splits)
  have grow: "only_dirs_added umask fs fs1" and pdir: "is_dir fs1 ?fdir"
    and t1: "tree fs \<longrightarrow> tree fs1"
    using MkdirAll_adds_dirs[OF mk] by simp_all
  have par: "?fdir = parent_dir ?name" using mk by (rule fdir_is_parent)
  have nd: "\<not> is_dir fs1 ?name" using op by (rule OpenFile_result(1))
  have same: "kept_mode umask fs1 ?name (Mode f) = kept_mode umask fs ?name (Mode f)"
    using grow nd unfolding only_dirs_added_def is_dir_def kept_mode_def
    by (metis (mono_tags, lifting) node.simps(6) option.simps(4,5))
  have st2: "stat fs2 ?name = Some (File (kept_mode umask fs ?name (Mode f)) [])"
    using OpenFile_result(2)[OF op] same by simp
  have st': "stat fs' ?name = Some (File (kept_mode umask fs ?name (Mode f)) (fst rc))"
    unfolding res(2) using Write_result(1)[OF st2] by simp
  have others: "\<forall>q. q \<noteq> ?name \<longrightarrow> stat fs' q = stat fs1 q"
    unfolding res(2) using OpenFile_result(3)[OF op] by (simp add: Write_result(2))
  have opened: "Open f = Inr (fst rc, None)" using rc res(1) by (cases rc) simp
  have pdir': "is_dir fs1 (parent_dir ?name)" using pdir par by simp
  have t': "tree fs \<longrightarrow> tree fs'"
    unfolding res(2) using t1 OpenFile_tree[OF op] by (simp add: Write_tree)
  show ?thesis
    unfolding target_def
    by (intro exI[of _ fs1] exI[of _ "fst rc"] conjI) (rule grow opened nd pdir' st' others t')+
qed




lemma written_over_dir_kept:
  "written_over umask T fs fs' \<Longrightarrow> is_dir fs q \<Longrightarrow> is_dir fs' q"
  unfolding written_over_def is_dir_def
  by (metis (mono_tags, lifting) node.simps(6) option.simps(4,5))


lemma written_over_outside:
  "written_over umask T fs fs' \<Longrightarrow> q \<notin> T \<Longrightarrow> stat fs q = Some n \<Longrightarrow> stat fs' q = Some n"
  unfolding written_over_def by (metis option.distinct(1))

lemma written_over_trans:
  assumes a: "written_over umask T1 fs fs1" and b: "written_over umask T2 fs1 fs2"
  shows "written_over umask (T1 \<union> T2) fs fs2"
proof -
  have out: "stat fs2 q = stat fs q \<or>
             (stat fs q = None \<and> stat fs2 q = Some (Dir (created_mode umask ModePerm)))"
    if "q \<notin> T1 \<union> T2" for q
    using a b that unfolding written_over_def by (metis UnCI option.distinct(1))
  have inn: "\<not> is_dir fs q \<and> is_file fs2 q" if q: "q \<in> T1 \<union> T2" for q
  proof (cases "q \<in> T2")
    case True
    then have "\<not> is_dir fs1 q" "is_file fs2 q" using b by (auto simp: written_over_def)
    then show ?thesis using written_over_dir_kept[OF a] by blast
  next
    case False
    with q have qa: "q \<in> T1" by simp
    then have nd: "\<not> is_dir fs q" and f1: "is_file fs1 q" using a by (auto simp: written_over_def)
    from f1 obtain m c where "stat fs1 q = Some (File m c)"
      by (auto simp: is_file_def split: option.splits node.splits)
    then have "stat fs2 q = Some (File m c)" using written_over_outside[OF b False] by simp
    then show ?thesis using nd by (simp add: is_file_def)
  qed
  show ?thesis unfolding written_over_def using out inn by blast
qed

lemma unzip_entry_written_over:
  assumes "unzip_entry umask dest f fs = (None, fs')"
  shows "written_over umask (file_targets dest [f]) fs fs'"
proof (cases "IsDir f")
  case True
  then have "only_dirs_added umask fs fs'" using unzip_dir_entry(1)[OF assms] by simp
  then show ?thesis using True
    by (simp add: written_over_def file_targets_def only_dirs_added_def)
next
  case False
  from unzip_file_entry[OF assms False] obtain fs1 bytes where
    grow: "only_dirs_added umask fs fs1" and nd: "\<not> is_dir fs1 (target dest f)" and
    st: "stat fs' (target dest f)
           = Some (File (kept_mode umask fs (target dest f) (Mode f)) bytes)" and
    others: "\<forall>q. q \<noteq> target dest f \<longrightarrow> stat fs' q = stat fs1 q"
    by blast
  have "\<not> is_dir fs (target dest f)" using nd is_dir_kept[OF grow] by blast
  moreover have "is_file fs' (target dest f)" using st by (simp add: is_file_def)
  moreover have "stat fs' q = stat fs q \<or>
                 (stat fs q = None \<and> stat fs' q = Some (Dir (created_mode umask ModePerm)))"
    if "q \<noteq> target dest f" for q
    using that others grow unfolding only_dirs_added_def by metis
  ultimately show ?thesis using False
    by (simp add: written_over_def file_targets_def)
qed

subsection \<open>The whole archive\<close>

lemma file_targets_Cons:
  "file_targets dest (f # rest) = file_targets dest [f] \<union> file_targets dest rest"
  by (auto simp: file_targets_def)

lemma unzip_entries_written_over:
  "unzip_entries umask dest es fs = (None, fs') \<Longrightarrow> written_over umask (file_targets dest es) fs fs'"
proof (induction es arbitrary: fs)
  case Nil
  then show ?case by (simp add: written_over_def file_targets_def)
next
  case (Cons f rest)
  from Cons.prems obtain fs1 where
    one: "unzip_entry umask dest f fs = (None, fs1)" and
    more: "unzip_entries umask dest rest fs1 = (None, fs')"
    by (auto split: prod.splits option.splits)
  show ?case
    unfolding file_targets_Cons[of dest f rest]
    using unzip_entry_written_over[OF one] Cons.IH[OF more] by (rule written_over_trans)
qed


text \<open>The loop is sequential: a prefix of the archive is done before the rest starts.\<close>

lemma unzip_entries_append:
  "unzip_entries umask dest (xs @ ys) fs =
     (case unzip_entries umask dest xs fs of
        (Some err, fs1) \<Rightarrow> (Some err, fs1)
      | (None, fs1) \<Rightarrow> unzip_entries umask dest ys fs1)"
  by (induction xs arbitrary: fs) (auto split: prod.splits option.splits)

lemma unzip_entries_turn:
  assumes "unzip_entries umask dest (xs @ f # ys) fs = (None, fs')"
  shows "\<exists>fs1 fs2. unzip_entries umask dest xs fs = (None, fs1) \<and>
           unzip_entry umask dest f fs1 = (None, fs2) \<and>
           unzip_entries umask dest ys fs2 = (None, fs')"
  using assms by (auto simp: unzip_entries_append split: prod.splits option.splits)







text \<open>
  Whatever the names of the entries, each is at the join of the destination and its
  name once the loop is through.
\<close>

lemma unzip_entries_at_join:
  assumes loop: "unzip_entries umask dest es fs = (None, fs')" and f: "f \<in> set es"
  shows "if IsDir f then is_dir fs' (filepath_Join [dest, Name f])
         else is_file fs' (filepath_Join [dest, Name f])"
proof (cases "IsDir f")
  case True
  from f obtain xs ys where es: "es = xs @ f # ys" by (auto dest: split_list)
  from unzip_entries_turn[OF loop[unfolded es]] obtain fs1 fs2 where
    one: "unzip_entry umask dest f fs1 = (None, fs2)" and
    after: "unzip_entries umask dest ys fs2 = (None, fs')"
    by blast
  have "is_dir fs2 (target dest f)" using one True by (rule unzip_dir_entry(2))
  then have "is_dir fs' (target dest f)"
    using written_over_dir_kept[OF unzip_entries_written_over[OF after]] by blast
  then show ?thesis using True by (simp add: target_def)
next
  case False
  then have "target dest f \<in> file_targets dest es" using f by (auto simp: file_targets_def)
  then have "is_file fs' (target dest f)"
    using unzip_entries_written_over[OF loop] by (simp add: written_over_def)
  then show ?thesis using False by (simp add: target_def)
qed






text \<open>
  C9: \<open>Unzip\<close> takes \<open>filepath.Join(dest, f.Name)\<close> as it comes, for every entry.
  Whatever the archive \<open>zip.OpenReader\<close> finds in the file \<open>src\<close> and whatever the
  names of its entries, when \<open>Unzip\<close> returns \<open>nil\<close> every directory entry is a
  directory and every file entry is a file at the join of the destination and the
  entry's name, wherever that is. \<open>Join\<close> cleans the path, resolving the \<open>..\<close> of
  a name against the destination: for the archive whose one entry is named
  \<open>../evil\<close>, \<open>Unzip\<close> of \<open>/work/out.zip\<close> to \<open>/work/out\<close> returns \<open>nil\<close> and has written
  the entry's bytes to \<open>/work/evil\<close>, which is outside the destination.
\<close>

theorem Unzip_joins_without_sanitizing:
  "(stat fs src = Some (File m bytes) \<and> OpenReader env bytes = Inr es \<and>
    Unzip env src dest fs = (None, fs') \<longrightarrow>
      (\<forall>f \<in> set es. if IsDir f then is_dir fs' (filepath_Join [dest, Name f])
                    else is_file fs' (filepath_Join [dest, Name f]))) \<and>
   (\<exists>f fs''. OpenReader escaping_env ''PK'' = Inr [f] \<and> Name f = ''../evil'' \<and>
       stat downloaded_files ''/work/evil'' = None \<and>
       Unzip escaping_env ''/work/out.zip'' ''/work/out'' downloaded_files = (None, fs'') \<and>
       filepath_Join [''/work/out'', Name f] = ''/work/evil'' \<and>
       stat fs'' ''/work/evil'' = Some (File 420 ''x'') \<and>
       \<not> inside ''/work/out'' ''/work/evil'')"
proof -
  have general: "if IsDir f then is_dir fs' (filepath_Join [dest, Name f])
                 else is_file fs' (filepath_Join [dest, Name f])"
    if src: "stat fs src = Some (File m bytes)" and es: "OpenReader env bytes = Inr es"
      and uz: "Unzip env src dest fs = (None, fs')" and f: "f \<in> set es" for f
  proof -
    have "unzip_entries (Umask env) dest es fs = (None, fs')"
      using uz src es by (simp add: Unzip_def)
    then show ?thesis using f by (rule unzip_entries_at_join)
  qed
  let ?f = "\<lparr>Name = ''../evil'', Mode = 420, Open = Inr (''x'', None)\<rparr>"
  let ?fs = "[(''/work'', Dir 493), (''/work/out.zip'', File 420 ''PK''), (''/work/evil'', File 420 ''x'')]"
  have "OpenReader escaping_env ''PK'' = Inr [?f]"
    by (simp add: escaping_env_def escaping_archive_def)
  moreover have "Name ?f = ''../evil''" by simp
  moreover have "stat downloaded_files ''/work/evil'' = None" by code_simp
  moreover have "Unzip escaping_env ''/work/out.zip'' ''/work/out'' downloaded_files = (None, ?fs)"
    by code_simp
  moreover have "filepath_Join [''/work/out'', Name ?f] = ''/work/evil''" by code_simp
  moreover have "stat ?fs ''/work/evil'' = Some (File 420 ''x'')" by code_simp
  moreover have "\<not> inside ''/work/out'' ''/work/evil''" by code_simp
  ultimately have escapes: "\<exists>f fs''. OpenReader escaping_env ''PK'' = Inr [f] \<and> Name f = ''../evil'' \<and>
       stat downloaded_files ''/work/evil'' = None \<and>
       Unzip escaping_env ''/work/out.zip'' ''/work/out'' downloaded_files = (None, fs'') \<and>
       filepath_Join [''/work/out'', Name f] = ''/work/evil'' \<and>
       stat fs'' ''/work/evil'' = Some (File 420 ''x'') \<and>
       \<not> inside ''/work/out'' ''/work/evil''"
    by blast
  show ?thesis using general escapes by blast
qed

text \<open>
  On the archive with the entry \<open>../evil\<close>: the zip file is read, \<open>Unzip\<close> returns
  \<open>nil\<close>, and the entry is a file at \<open>/work/evil\<close>, beside the destination
  \<open>/work/out\<close>, which was not even made.
\<close>

theorem Unzip_joins_without_sanitizing_witness:
  "stat downloaded_files ''/work/out.zip'' = Some (File 420 ''PK'') \<and>
   OpenReader escaping_env ''PK'' = Inr escaping_archive \<and>
   Unzip escaping_env ''/work/out.zip'' ''/work/out'' downloaded_files
     = (None, [(''/work'', Dir 493), (''/work/out.zip'', File 420 ''PK''), (''/work/evil'', File 420 ''x'')]) \<and>
   is_file [(''/work'', Dir 493), (''/work/out.zip'', File 420 ''PK''), (''/work/evil'', File 420 ''x'')]
     (filepath_Join [''/work/out'', ''../evil'']) \<and>
   stat [(''/work'', Dir 493), (''/work/out.zip'', File 420 ''PK''), (''/work/evil'', File 420 ''x'')]
     ''/work/out'' = None"
proof -
  let ?fs = "[(''/work'', Dir 493), (''/work/out.zip'', File 420 ''PK''), (''/work/evil'', File 420 ''x'')]"
  have src: "stat downloaded_files ''/work/out.zip'' = Some (File 420 ''PK'')" by code_simp
  have es: "OpenReader escaping_env ''PK'' = Inr escaping_archive" by (simp add: escaping_env_def)
  have uz: "Unzip escaping_env ''/work/out.zip'' ''/work/out'' downloaded_files = (None, ?fs)"
    by code_simp
  have nd: "stat ?fs ''/work/out'' = None" by code_simp
  have kind: "\<not> IsDir \<lparr>Name = ''../evil'', Mode = 420, Open = Inr (''x'', None)\<rparr>" by code_simp
  from Unzip_joins_without_sanitizing
         [where fs = downloaded_files and src = "''/work/out.zip''" and m = 420 and bytes = "''PK''"
            and env = escaping_env and es = escaping_archive and dest = "''/work/out''" and fs' = ?fs]
       src es uz
  have "\<forall>f \<in> set escaping_archive.
          if IsDir f then is_dir ?fs (filepath_Join [''/work/out'', Name f])
          else is_file ?fs (filepath_Join [''/work/out'', Name f])"
    by blast
  then have "is_file ?fs (filepath_Join [''/work/out'', ''../evil''])"
    using kind by (simp add: escaping_archive_def)
  then show ?thesis using src es uz nd by simp
qed

section \<open>The descriptor the prompts leave\<close>

subsection \<open>What a prompt helper prints\<close>

lemma ask_loop_answer:
  "ask_loop p rs n = (Inr v, rs', n') \<Longrightarrow> Required v \<and> (\<exists>a. read_answer p a = Inr v)"
  by (induction p rs n rule: ask_loop.induct) (auto split: sum.splits if_splits)

lemma AskOne_stdout: "AskOne p w = (r, w') \<Longrightarrow> stdout w' = stdout w"
  by (auto simp: AskOne_def split: if_splits prod.splits)

lemma AskOne_answer:
  "AskOne p w = (Inr v, w') \<Longrightarrow> Required v \<and> (\<exists>a. read_answer p a = Inr v)"
  using ask_loop_answer by (fastforce simp: AskOne_def split: if_splits prod.splits)

lemma read_Select: "read_answer (SelectPrompt m opts d) a = Inr v \<Longrightarrow> \<exists>s. v = StringVal s"
  by (cases a) (auto split: if_splits)

lemma read_MultiSelect: "read_answer (MultiSelectPrompt m opts) a = Inr v \<Longrightarrow> \<exists>ss. v = StringsVal ss"
  by (cases a) (auto split: if_splits)

text \<open>A prompt helper that returns has printed nothing, or one line and returned the zero value.\<close>

lemma HandleError_stdout:
  "HandleError err w = Return u w' \<Longrightarrow>
     (err = None \<and> w' = w) \<or> (\<exists>line. err \<noteq> None \<and> stdout w' = stdout w @ [line])"
  by (auto simp: HandleError_def print_def split: option.splits if_splits)

lemma Proceed_stdout:
  assumes "Proceed message w = Return b w'"
  shows "stdout w' = stdout w \<or> (\<exists>line. stdout w' = stdout w @ [line])"
proof -
  obtain r w1 where a: "AskOne (Confirm message) w = (r, w1)" by (cases "AskOne (Confirm message) w")
  with assms obtain u where "HandleError (err_of r) w1 = Return u w'"
    by (auto simp: Proceed_def bind_def split: result.splits)
  then show ?thesis using HandleError_stdout AskOne_stdout[OF a] by metis
qed

lemma Select_stdout:
  assumes "Select message options dv w = Return v w'"
  shows "(stdout w' = stdout w \<and> v \<noteq> []) \<or> (\<exists>line. stdout w' = stdout w @ [line])"
proof -
  let ?p = "SelectPrompt message options (if length dv = 1 then Some (dv ! 0) else None)"
  obtain r w1 where a: "AskOne ?p w = (r, w1)" by (cases "AskOne ?p w")
  with assms obtain u where h: "HandleError (err_of r) w1 = Return u w'" and v: "v = string_response r"
    by (auto simp: Select_def askOne_def bind_def split: result.splits)
  show ?thesis
  proof (cases r)
    case (Inl e)
    then show ?thesis using HandleError_stdout[OF h] AskOne_stdout[OF a] by auto
  next
    case (Inr x)
    then have "Required x" "\<exists>s. x = StringVal s"
      using AskOne_answer[of ?p w x w1] a read_Select by blast+
    then have "v \<noteq> []" using v Inr by auto
    then show ?thesis using HandleError_stdout[OF h] AskOne_stdout[OF a] Inr by auto
  qed
qed

lemma Ask_stdout:
  assumes "Ask message dv w = Return v w'"
  shows "stdout w' = stdout w \<or> (\<exists>line. stdout w' = stdout w @ [line])"
proof -
  let ?p = "Input message (if length dv = 1 then dv ! 0 else [])"
  obtain r w1 where a: "AskOne ?p w = (r, w1)" by (cases "AskOne ?p w")
  with assms obtain u where "HandleError (err_of r) w1 = Return u w'"
    by (auto simp: Ask_def askOne_def bind_def split: result.splits)
  then show ?thesis using HandleError_stdout AskOne_stdout[OF a] by metis
qed

lemma MultiSelect_stdout:
  assumes "MultiSelect message options w = Return v w'"
  shows "(stdout w' = stdout w \<and> v \<noteq> []) \<or> (\<exists>line. stdout w' = stdout w @ [line])"
proof -
  let ?p = "MultiSelectPrompt message options"
  obtain r w1 where a: "AskOne ?p w = (r, w1)" by (cases "AskOne ?p w")
  with assms obtain u where h: "HandleError (err_of r) w1 = Return u w'" and v: "v = strings_response r"
    by (auto simp: MultiSelect_def bind_def Let_def split: result.splits)
  show ?thesis
  proof (cases r)
    case (Inl e)
    then show ?thesis using HandleError_stdout[OF h] AskOne_stdout[OF a] by auto
  next
    case (Inr x)
    then have "Required x" "\<exists>s. x = StringsVal s"
      using AskOne_answer[of ?p w x w1] a read_MultiSelect by blast+
    then have "v \<noteq> []" using v Inr by auto
    then show ?thesis using HandleError_stdout[OF h] AskOne_stdout[OF a] Inr by auto
  qed
qed

lemma getYamlFrom_stdout:
  "getYamlFrom env unmarshal url endpoint w = Return v w' \<Longrightarrow> stdout w' = stdout w"
  by (auto simp: getYamlFrom_def Let_def log_entry_def log_Fatal_def
           split: option.splits prod.splits response.splits if_splits sum.splits)

lemma bind_Return:
  "bind r k = Return b w'' \<Longrightarrow> \<exists>a w'. r = Return a w' \<and> k a w' = Return b w''"
  by (cases r) (auto simp: bind_def)

lemma quiet_between:
  assumes "prefix (stdout w) (stdout w1)" and "prefix (stdout w1) (stdout w2)" and "stdout w2 = stdout w"
  shows "stdout w1 = stdout w"
  using assms by (metis prefix_order.antisym)

lemma Proceed_grows: "Proceed message w = Return b w' \<Longrightarrow> prefix (stdout w) (stdout w')"
  using Proceed_stdout by fastforce

lemma Ask_grows: "Ask message dv w = Return v w' \<Longrightarrow> prefix (stdout w) (stdout w')"
  using Ask_stdout by fastforce

lemma Select_grows: "Select message options dv w = Return v w' \<Longrightarrow> prefix (stdout w) (stdout w')"
  using Select_stdout by fastforce

lemma Select_quiet:
  "Select message options dv w = Return v w' \<Longrightarrow> stdout w' = stdout w \<Longrightarrow> v \<noteq> []"
  using Select_stdout by fastforce

lemma MultiSelect_grows: "MultiSelect message options w = Return v w' \<Longrightarrow> prefix (stdout w) (stdout w')"
  using MultiSelect_stdout by fastforce

lemma MultiSelect_quiet:
  "MultiSelect message options w = Return v w' \<Longrightarrow> stdout w' = stdout w \<Longrightarrow> v \<noteq> []"
  using MultiSelect_stdout by fastforce

lemma getCompatibleModuleNameFor_stdout:
  "getCompatibleModuleNameFor env p w = Return names w' \<Longrightarrow> stdout w' = stdout w"
  by (auto simp: getCompatibleModuleNameFor_def dest!: bind_Return getYamlFrom_stdout)

subsection \<open>The three groups of prompts\<close>

lemma choose_version_keeps:
  assumes "choose_version env c p w = Return p' w'"
  shows "Template p' = Template p \<and> Modules p' = Modules p \<and> prefix (stdout w) (stdout w')"
  using assms unfolding choose_version_def Let_def
  by (auto split: prod.splits if_splits dest!: bind_Return)
     (meson Select_grows Proceed_grows prefix_order.trans)+

lemma choose_template_or_modules_result:
  assumes "choose_template_or_modules env c p w = Return p' w'"
  shows "prefix (stdout w) (stdout w') \<and>
         (stdout w' = stdout w \<longrightarrow>
            (Template p' \<noteq> [] \<and> Modules p' = Modules p) \<or>
            (Modules p' \<noteq> [] \<and> Template p' = Template p))"
proof -
  from assms obtain yes w1 where pr: "Proceed ''Create from template'' w = Return yes w1" and
    k: "(if yes
          then bind (Select ''Available templates'' (GetTemplateNames env c) [] w1)
                 (\<lambda>t w. Return (p\<lparr>Template := t\<rparr>) w)
          else bind (getCompatibleModuleNameFor env p w1)
                 (\<lambda>names w.
                    bind (MultiSelect ''Select modules'' names w)
                      (\<lambda>ms w. Return (p\<lparr>Modules := ms\<rparr>) w))) = Return p' w'"
    unfolding choose_template_or_modules_def by (auto dest!: bind_Return)
  have g1: "prefix (stdout w) (stdout w1)" using pr by (rule Proceed_grows)
  show ?thesis
  proof (cases yes)
    case True
    with k obtain t where s: "Select ''Available templates'' (GetTemplateNames env c) [] w1 = Return t w'"
      and r: "p' = p\<lparr>Template := t\<rparr>"
      by (auto dest!: bind_Return)
    have g2: "prefix (stdout w1) (stdout w')" using s by (rule Select_grows)
    have "t \<noteq> []" if "stdout w' = stdout w"
      using Select_quiet[OF s] quiet_between[OF g1 g2 that] that by simp
    then show ?thesis using g1 g2 r by auto
  next
    case False
    with k obtain names w2 ms where m: "getCompatibleModuleNameFor env p w1 = Return names w2"
      and s: "MultiSelect ''Select modules'' names w2 = Return ms w'"
      and r: "p' = p\<lparr>Modules := ms\<rparr>"
      by (auto dest!: bind_Return)
    have e: "stdout w2 = stdout w1" using m by (rule getCompatibleModuleNameFor_stdout)
    have g2: "prefix (stdout w1) (stdout w')" using s e MultiSelect_grows by metis
    have "ms \<noteq> []" if "stdout w' = stdout w"
      using MultiSelect_quiet[OF s] quiet_between[OF g1 g2 that] that e by simp
    then show ?thesis using g1 g2 r by auto
  qed
qed

lemma ask_identifiers_keeps:
  assumes "ask_identifiers env p w = Return p' w'"
  shows "Template p' = Template p \<and> Modules p' = Modules p \<and> prefix (stdout w) (stdout w')"
proof -
  from assms obtain g w1 a w2 v w3 n w4 d where
    "Ask ''Group Id'' [''me.snowdrop''] w = Return g w1"
    "Ask ''Artifact Id'' [''myproject''] w1 = Return a w2"
    "Ask ''Version'' [''1.0.0-SNAPSHOT''] w2 = Return v w3"
    "Ask ''Package name'' [g @ ''.'' @ a] w3 = Return n w4"
    "Ask (''Project location (immediate child directory of '' @ Getwd env @ '')'') [] w4 = Return d w'"
    and r: "p' = p\<lparr>GroupId := g, ArtifactId := a, Version := v, PackageName := n, OutDir := d\<rparr>"
    unfolding ask_identifiers_def Let_def
    by (auto dest!: bind_Return)
  then have "prefix (stdout w) (stdout w1)" "prefix (stdout w1) (stdout w2)" "prefix (stdout w2) (stdout w3)"
    "prefix (stdout w3) (stdout w4)" "prefix (stdout w4) (stdout w')"
    using Ask_grows by blast+
  then have "prefix (stdout w) (stdout w')" by (meson prefix_order.trans)
  then show ?thesis using r by simp
qed

lemma example_collect:
  "collect example_env () example_flags (start example_replies example_files)
     = Return example_descriptor ((start [] example_files)\<lparr>shown := example_prompts, sent := [''http://gen/modules/2.1.0'']\<rparr>)"
  by code_simp

text \<open>
  C2, as stated, fails. With \<open>--module web\<close> on the command line and a user who
  asks for the template \<open>rest\<close>, the descriptor handed to the request has the
  template \<open>rest\<close> and the module \<open>web\<close>: the prompt fills one of the two fields and
  leaves the other as the flag set it. And with no flag, when the terminal fails at
  the choice of the template (an error that is not an interrupt), \<open>Select\<close> returns
  the empty string and both fields are empty.
\<close>

theorem template_and_modules_counterexample:
  "map_option Template (returned (collect example_env () module_flag (start template_replies example_files)))
     = Some ''rest'' \<and>
   map_option Modules (returned (collect example_env () module_flag (start template_replies example_files)))
     = Some [''web''] \<and>
   map_option Template (returned (collect example_env () example_flags (start failing_replies example_files)))
     = Some [] \<and>
   map_option Modules (returned (collect example_env () example_flags (start failing_replies example_files)))
     = Some []"
  by code_simp

text \<open>
  C2, amended: when neither \<open>--template\<close> nor \<open>--module\<close> is given and no prompt
  reports an error (nothing is printed on standard output by the prompts), the
  descriptor the prompts hand to the archive request has a non-empty template or a
  non-empty module selection, and not both.
\<close>

theorem template_xor_modules_without_flags:
  assumes "Template p = []" and "Modules p = []"
    and "collect env c p w = Return p' w'" and "stdout w' = stdout w"
  shows "(Template p' \<noteq> []) \<noteq> (Modules p' \<noteq> [])"
proof -
  from assms(3) obtain p1 w1 p2 w2 where
    s1: "choose_version env c p w = Return p1 w1" and
    s2: "choose_template_or_modules env c p1 w1 = Return p2 w2" and
    s3: "ask_identifiers env p2 w2 = Return p' w'"
    unfolding collect_def by (auto dest!: bind_Return)
  note k1 = choose_version_keeps[OF s1]
  note k2 = choose_template_or_modules_result[OF s2]
  note k3 = ask_identifiers_keeps[OF s3]
  have a: "prefix (stdout w) (stdout w1)" "prefix (stdout w1) (stdout w2)" "prefix (stdout w2) (stdout w')"
    using k1 k2 k3 by simp_all
  have "prefix (stdout w1) (stdout w')" using a(2,3) by (rule prefix_order.trans)
  with a(1) have e1: "stdout w1 = stdout w" using assms(4) by (rule quiet_between)
  have "prefix (stdout w) (stdout w2)" using a(1,2) by (rule prefix_order.trans)
  then have e2: "stdout w2 = stdout w" using a(3) assms(4) by (rule quiet_between)
  have "(Template p2 \<noteq> [] \<and> Modules p2 = Modules p1) \<or> (Modules p2 \<noteq> [] \<and> Template p2 = Template p1)"
    using k2 e1 e2 by simp
  then show ?thesis using k1 k3 assms(1,2) by auto
qed

text \<open>The example run: no template, two modules.\<close>

theorem template_xor_modules_witness:
  "collect example_env () example_flags (start example_replies example_files)
     = Return example_descriptor ((start [] example_files)\<lparr>shown := example_prompts, sent := [''http://gen/modules/2.1.0'']\<rparr>) \<and>
   Template example_descriptor = [] \<and> Modules example_descriptor = [''web'', ''data-jpa''] \<and>
   (Template example_descriptor \<noteq> []) \<noteq> (Modules example_descriptor \<noteq> [])"
proof -
  have a: "Template example_flags = []" "Modules example_flags = []"
    by (simp_all add: example_flags_def no_flags_def)
  have q: "stdout ((start [] example_files)\<lparr>shown := example_prompts, sent := [''http://gen/modules/2.1.0'']\<rparr>)
             = stdout (start example_replies example_files)"
    by (simp add: start_def)
  show ?thesis
    using template_xor_modules_without_flags[OF a example_collect q] example_collect
    by (simp add: example_descriptor_def)
qed

section \<open>The flags\<close>

lemma rel_bind:
  assumes "rel_result R r1 r2" and "\<And>a b w. R a b \<Longrightarrow> rel_result S (k1 a w) (k2 b w)"
  shows "rel_result S (bind r1 k1) (bind r2 k2)"
  using assms by (cases r1; cases r2) (auto simp: bind_def)

lemma rel_bind_same:
  assumes "\<And>a w. rel_result S (k1 a w) (k2 a w)"
  shows "rel_result S (bind r k1) (bind r k2)"
  using assms by (cases r) (auto simp: bind_def)

lemma choose_version_rel:
  assumes "same_url_template_modules p q"
  shows "rel_result same_but_identifiers (choose_version env c p w) (choose_version env c q w)"
  unfolding choose_version_def Let_def
  using assms
  by (auto simp: same_but_identifiers_def same_url_template_modules_def split: prod.splits
           intro!: rel_bind_same)

lemma choose_template_or_modules_rel:
  assumes "same_but_identifiers p q"
  shows "rel_result same_but_identifiers
           (choose_template_or_modules env c p w) (choose_template_or_modules env c q w)"
proof -
  have m: "getCompatibleModuleNameFor env p w' = getCompatibleModuleNameFor env q w'" for w'
    using assms
    by (simp add: getCompatibleModuleNameFor_def same_but_identifiers_def same_url_template_modules_def)
  show ?thesis
    unfolding choose_template_or_modules_def m
    using assms
    by (auto simp: same_but_identifiers_def same_url_template_modules_def intro!: rel_bind_same)
qed

lemma ask_identifiers_rel:
  assumes "same_but_identifiers p q"
  shows "ask_identifiers env p w = ask_identifiers env q w"
proof -
  have eq: "p\<lparr>GroupId := g, ArtifactId := a, Version := v, PackageName := n, OutDir := d\<rparr>
          = q\<lparr>GroupId := g, ArtifactId := a, Version := v, PackageName := n, OutDir := d\<rparr>" for g a v n d
    using assms
    by (intro Project.equality) (simp_all add: same_but_identifiers_def same_url_template_modules_def)
  show ?thesis
    unfolding ask_identifiers_def Let_def by (simp add: eq)
qed

lemma collect_rel:
  assumes "same_url_template_modules p q"
  shows "collect env c p w = collect env c q w"
proof -
  have "rel_result (=) (collect env c p w) (collect env c q w)"
    unfolding collect_def
  proof (rule rel_bind[OF choose_version_rel[OF assms]])
    fix a b w1 assume ab: "same_but_identifiers a b"
    show "rel_result (=)
            (bind (choose_template_or_modules env c a w1) (\<lambda>p w. ask_identifiers env p w))
            (bind (choose_template_or_modules env c b w1) (\<lambda>p w. ask_identifiers env p w))"
    proof (rule rel_bind[OF choose_template_or_modules_rel[OF ab]])
      fix a' b' w2 assume "same_but_identifiers a' b'"
      then show "rel_result (=) (ask_identifiers env a' w2) (ask_identifiers env b' w2)"
        by (simp add: ask_identifiers_rel result.rel_eq)
    qed
  qed
  then show ?thesis by (simp add: result.rel_eq)
qed

text \<open>
  The flags \<open>--groupid\<close>, \<open>--artifactid\<close>, \<open>--version\<close>, \<open>--packagename\<close>,
  \<open>--springbootversion\<close> and \<open>--snowdropbom\<close> change nothing of a run: two command
  lines that agree on the service URL, the template and the modules give the same run
  (the same prompts, requests, files, output and exit status).
\<close>

lemma identifier_flags_are_dead:
  assumes "UrlService p = UrlService q" and "Template p = Template q" and "Modules p = Modules q"
  shows "main env p args w = main env q args w"
proof -
  have "same_url_template_modules p q" using assms by (simp add: same_url_template_modules_def)
  then have "collect env c p w' = collect env c q w'" for c w' by (rule collect_rel)
  then show ?thesis
    using assms(1) by (simp add: main_def Execute_def RunE_def)
qed

text \<open>
  C7 fails on the code. The command line
  \<open>scaffold -u http://gen -t rest -g com.acme -i demo -v 0.0.1 -p com.acme.demo -s 2.1.0 -b a.b\<close>
  gives a value to every flag of a template project, and the run is as interactive
  as without them: the nine prompts are shown, each with its built-in default and
  none with the flag's value; the request carries the answers
  (\<open>groupid=me.snowdrop\<close>, \<open>artifactid=myproject\<close>, \<open>version=1.0.0-SNAPSHOT\<close>,
  \<open>packagename=me.snowdrop.myproject\<close>, \<open>snowdropbom=x.y\<close>), not the flags' values; the
  template of the flag, which the user did not choose, is sent along with the
  modules the user picked; and the whole run is the one of the command line
  \<open>scaffold -u http://gen -t rest\<close>.
\<close>

theorem flag_values_are_overwritten_by_the_prompts:
  "GroupId all_flags = ''com.acme'' \<and> ArtifactId all_flags = ''demo'' \<and>
   Version all_flags = ''0.0.1'' \<and> PackageName all_flags = ''com.acme.demo'' \<and>
   SnowdropBomVersion all_flags = ''a.b'' \<and>
   shown (snd (main example_env all_flags [] (start example_replies example_files))) = example_prompts \<and>
   last (sent (snd (main example_env all_flags [] (start example_replies example_files))))
     = ''http://gen/app?artifactid=myproject&groupid=me.snowdrop&module=web&module=data-jpa&outdir=out&packagename=me.snowdrop.myproject&snowdropbom=x.y&springbootversion=2.1.0&template=rest&version=1.0.0-SNAPSHOT'' \<and>
   main example_env all_flags [] (start example_replies example_files)
     = main example_env (example_flags\<lparr>Template := ''rest''\<rparr>) [] (start example_replies example_files)"
  by code_simp

end
